theory Spec2Isabelle
  imports Main "HOL-Library.Word" "HOL-Library.Sublist"
begin

section \<open>JSON values and their serialisation\<close>

text \<open>
  Event data and request bodies are JavaScript objects. They are modelled as JSON trees.
  A number is an integer (\<open>JNum\<close>) or, when it is not one, its decimal rendering
  (\<open>JDec\<close>, as in \<^verbatim>\<open>0.067\<close>). An object keeps its properties in insertion order, as
  \<^verbatim>\<open>JSON.stringify\<close> emits them. Strings are lists of bytes (UTF-8). An integer is
  written with all its digits, as \<^verbatim>\<open>JSON.stringify\<close> writes the integers below
  \<open>10 ^ 21\<close>; it writes larger ones with an exponent, which is not modelled.
\<close>

datatype json =
    JNull
  | JBool bool
  | JNum int
  | JDec string
  | JStr string
  | JArr "json list"
  | JObj "(string \<times> json) list"

definition dquote :: char where
  "dquote = CHR 0x22"

definition backslash :: char where
  "backslash = CHR 0x5C"

definition hexdigit :: "nat \<Rightarrow> char" where
  "hexdigit n = ''0123456789abcdef'' ! (n mod 16)"

text \<open>The escapes of \<^verbatim>\<open>JSON.stringify\<close> for the characters of a string.\<close>

definition escape_char :: "char \<Rightarrow> string" where
  "escape_char c =
     (if c = dquote then [backslash, dquote]
      else if c = backslash then [backslash, backslash]
      else if c = CHR 0x08 then [backslash, CHR ''b'']
      else if c = CHR 0x0C then [backslash, CHR ''f'']
      else if c = CHR 0x0A then [backslash, CHR ''n'']
      else if c = CHR 0x0D then [backslash, CHR ''r'']
      else if c = CHR 0x09 then [backslash, CHR ''t'']
      else if (of_char c :: nat) < 32
        then [backslash, CHR ''u'', CHR ''0'', CHR ''0'',
              hexdigit (of_char c div 16), hexdigit (of_char c mod 16)]
      else [c])"

definition quote :: "string \<Rightarrow> string" where
  "quote s = dquote # concat (map escape_char s) @ [dquote]"

fun digits :: "nat \<Rightarrow> string" where
  "digits n = (if n < 10 then [hexdigit n] else digits (n div 10) @ [hexdigit (n mod 10)])"

declare digits.simps [simp del]

definition show_int :: "int \<Rightarrow> string" where
  "show_int i = (if i < 0 then CHR ''-'' # digits (nat (- i)) else digits (nat i))"

fun commas :: "string list \<Rightarrow> string" where
  "commas [] = []"
| "commas [x] = x"
| "commas (x # y # ys) = x @ '','' @ commas (y # ys)"

fun stringify :: "json \<Rightarrow> string" where
  "stringify JNull = ''null''"
| "stringify (JBool b) = (if b then ''true'' else ''false'')"
| "stringify (JNum n) = show_int n"
| "stringify (JDec r) = r"
| "stringify (JStr s) = quote s"
| "stringify (JArr xs) = ''['' @ commas (map stringify xs) @ '']''"
| "stringify (JObj kvs) =
     ''{'' @ commas (map (\<lambda>(k, v). quote k @ '':'' @ stringify v) kvs) @ ''}''"

text \<open>Property access \<^verbatim>\<open>obj.key\<close> on an object: the value of the last binding of the
  key, or nothing (\<^verbatim>\<open>undefined\<close>).\<close>

definition get_prop :: "(string \<times> json) list \<Rightarrow> string \<Rightarrow> json option" where
  "get_prop kvs k = map_of (rev kvs) k"

text \<open>JavaScript truthiness of a JSON value, as \<^verbatim>\<open>||\<close> tests it.\<close>

fun truthy :: "json \<Rightarrow> bool" where
  "truthy JNull = False"
| "truthy (JBool b) = b"
| "truthy (JNum n) = (n \<noteq> 0)"
| "truthy (JDec r) = True"
| "truthy (JStr s) = (s \<noteq> [])"
| "truthy (JArr xs) = True"
| "truthy (JObj kvs) = True"

section \<open>Signatures\<close>

text \<open>
  \<^verbatim>\<open>crypto.createHmac('sha256', secret).update(payload).digest()\<close> is a primitive of
  the platform. It is a parameter \<open>hmac\<close> of the model, from the key and the message to
  the 256-bit digest; \<^verbatim>\<open>digest('hex')\<close> renders the 32 bytes as 64 lowercase
  hexadecimal digits, most significant first.
\<close>

type_synonym hmac_sha256 = "string \<Rightarrow> string \<Rightarrow> 256 word"

definition hex_digest :: "256 word \<Rightarrow> string" where
  "hex_digest w = map (\<lambda>i. hexdigit (unat w div 16 ^ (63 - i) mod 16)) [0..<64]"

text \<open>\<^verbatim>\<open>WebhookService.generateSignature(payload, secret)\<close>\<close>

definition generateSignature :: "hmac_sha256 \<Rightarrow> string \<Rightarrow> string \<Rightarrow> string" where
  "generateSignature hmac payload secret = hex_digest (hmac secret payload)"

datatype js_error =
    RangeError string
  | TypeError string
  | Error string

text \<open>\<^verbatim>\<open>crypto.timingSafeEqual(a, b)\<close> throws a RangeError when the two buffers differ
  in byte length and compares them otherwise.\<close>

definition timingSafeEqual :: "string \<Rightarrow> string \<Rightarrow> js_error + bool" where
  "timingSafeEqual a b =
     (if length a \<noteq> length b
      then Inl (RangeError ''Input buffers must have the same byte length'')
      else Inr (a = b))"

text \<open>\<^verbatim>\<open>WebhookService.verifySignature(payload, signature, secret)\<close>;
  \<^verbatim>\<open>Buffer.from\<close> of a string is its UTF-8 bytes, the string itself here.\<close>

definition verifySignature :: "hmac_sha256 \<Rightarrow> string \<Rightarrow> string \<Rightarrow> string \<Rightarrow> js_error + bool" where
  "verifySignature hmac payload signature secret =
     (let expectedSignature = generateSignature hmac payload secret
      in timingSafeEqual signature expectedSignature)"

section \<open>The data model\<close>

text \<open>
  The two collections of the service, after the Mongoose schemas \<^verbatim>\<open>WebhookSchema\<close>
  and \<^verbatim>\<open>WebhookEventSchema\<close>. Times are milliseconds since the epoch. Counters that
  the code only ever starts at 0 and increments are natural numbers; numbers a user
  supplies are integers.
\<close>

record webhook_stats =
  totalCalls :: nat
  successfulCalls :: nat
  failedCalls :: nat
  lastCall :: "int option"
  lastCallStatus :: "int option"
  averageResponseTime :: "int option"

record webhook =
  wid :: string
  username :: string
  url :: string
  name :: string
  description :: "string option"
  events :: "string list"
  isActive :: bool
  secret :: string
  retryEnabled :: bool
  retryCount :: int
  retryBackoffMs :: int
  stats :: webhook_stats
  notifyOnFailure :: bool
  maxPayloadSize :: int
  created_at :: int
  updated_at :: int
  lastUpdatedBy :: "string option"

datatype event_status = Pending | Sent | Failed | Success

record webhook_event =
  eid :: string
  webhookId :: string
  logId :: "json option"
  eventType :: string
  payload :: json
  status :: event_status
  httpStatusCode :: "int option"
  attempts :: nat
  maxAttempts :: int
  lastAttemptTime :: "int option"
  lastAttemptError :: "string option"
  nextRetryTime :: "int option"
  requestDurationMs :: "int option"
  signature :: "string option"
  createdAt :: int
  sentAt :: "int option"

record db =
  webhooks :: "webhook list"
  webhook_events :: "webhook_event list"

text \<open>\<^verbatim>\<open>Webhook.findById(id)\<close>. Ids are the strings that the routes receive.
  Mongoose first casts the string to an ObjectId and throws when it is not one; here
  every id is taken to cast, so an id that is not stored is simply not found.\<close>

definition findById :: "string \<Rightarrow> webhook list \<Rightarrow> webhook option" where
  "findById i ws = find (\<lambda>w. wid w = i) ws"

text \<open>\<^verbatim>\<open>Webhook.findByIdAndUpdate(id, update)\<close>: the update is applied to the stored
  document with that id, and to nothing when there is none.\<close>

definition findByIdAndUpdate :: "string \<Rightarrow> (webhook \<Rightarrow> webhook) \<Rightarrow> webhook list \<Rightarrow> webhook list" where
  "findByIdAndUpdate i f ws = map (\<lambda>w. if wid w = i then f w else w) ws"

text \<open>\<^verbatim>\<open>webhookEvent.save()\<close> of a document that was loaded from the collection
  replaces the stored row of the same id. The row is taken to be there: for a document
  whose row is gone, the save of Mongoose throws instead.\<close>

definition save_event :: "webhook_event \<Rightarrow> webhook_event list \<Rightarrow> webhook_event list" where
  "save_event ev evs = map (\<lambda>e. if eid e = eid ev then ev else e) evs"

section \<open>Delivery: sendWebhookEvent\<close>

text \<open>The request that \<^verbatim>\<open>axios.post(webhook.url, webhookEvent.payload, {headers})\<close>
  sends: axios serialises the data object with \<^verbatim>\<open>JSON.stringify\<close>.\<close>

record http_request =
  req_url :: string
  req_body :: string
  x_webhook_signature :: string
  x_webhook_event :: string
  x_webhook_delivery :: string
  content_type :: string

text \<open>The string that \<open>sendWebhookEvent\<close> signs (its local \<^verbatim>\<open>payload\<close>): an envelope
  of the event type, the time of sending in ISO format and the event's data.\<close>

definition signed_payload :: "string \<Rightarrow> webhook_event \<Rightarrow> string" where
  "signed_payload ts ev =
     stringify (JObj [(''event'', JStr (eventType ev)),
                      (''timestamp'', JStr ts),
                      (''data'', payload ev)])"

definition sendWebhookEvent_post :: "hmac_sha256 \<Rightarrow> string \<Rightarrow> webhook \<Rightarrow> webhook_event \<Rightarrow> http_request" where
  "sendWebhookEvent_post hmac ts wh ev =
     (let sig = generateSignature hmac (signed_payload ts ev) (secret wh)
      in \<lparr>req_url = url wh,
          req_body = stringify (payload ev),
          x_webhook_signature = sig,
          x_webhook_event = eventType ev,
          x_webhook_delivery = eid ev,
          content_type = ''application/json''\<rparr>)"

text \<open>The promise of \<^verbatim>\<open>axios.post\<close> either resolves with a response, which has
  a status, or rejects with an error, which has a message and, when the server did
  answer, the status of the response (\<^verbatim>\<open>error.response?.status\<close>).\<close>

datatype axios_result = Resolved int | Rejected "int option" string



text \<open>The delay before the next attempt, from the base and the number of attempts made
  including the one that just failed.\<close>

definition backoffMs :: "webhook \<Rightarrow> nat \<Rightarrow> int" where
  "backoffMs wh n = retryBackoffMs wh * 2 ^ (n - 1)"

definition success_stats :: "int \<Rightarrow> int \<Rightarrow> int \<Rightarrow> webhook \<Rightarrow> webhook" where
  "success_stats now st duration w =
     w\<lparr>stats := (stats w)\<lparr>totalCalls := totalCalls (stats w) + 1,
                           successfulCalls := successfulCalls (stats w) + 1,
                           lastCall := Some now,
                           lastCallStatus := Some st,
                           averageResponseTime := Some duration\<rparr>\<rparr>"

definition failure_stats :: "int \<Rightarrow> webhook \<Rightarrow> webhook" where
  "failure_stats now w =
     w\<lparr>stats := (stats w)\<lparr>totalCalls := totalCalls (stats w) + 1,
                           failedCalls := failedCalls (stats w) + 1,
                           lastCall := Some now,
                           lastCallStatus := Some (- 1)\<rparr>\<rparr>"

text \<open>The event document after the attempt: the body of the \<^verbatim>\<open>try\<close> when the
  request resolved, the \<^verbatim>\<open>catch\<close> block when it was rejected.\<close>

definition attempt_event :: "int \<Rightarrow> int \<Rightarrow> webhook \<Rightarrow> webhook_event \<Rightarrow> axios_result \<Rightarrow> webhook_event" where
  "attempt_event now duration wh ev res =
     (case res of
        Resolved st \<Rightarrow>
          ev\<lparr>status := Success, sentAt := Some now, httpStatusCode := Some st,
             requestDurationMs := Some duration\<rparr>
      | Rejected code msg \<Rightarrow>
          (let ev1 = ev\<lparr>attempts := attempts ev + 1, lastAttemptTime := Some now,
                         lastAttemptError := Some msg\<rparr>
           in if int (attempts ev1) < maxAttempts ev1
              then ev1\<lparr>nextRetryTime := Some (now + backoffMs wh (attempts ev1)),
                       status := Pending\<rparr>
              else ev1\<lparr>status := Failed\<rparr>))"

text \<open>\<^verbatim>\<open>WebhookService.sendWebhookEvent(webhook, webhookEvent)\<close>, given the outcome of
  the request, the time \<open>now\<close> at which it completed and how long it took: the event as
  saved, and the collections after the event and the statistics were written. The writes
  to the database are taken to succeed; each is one update of one document, and the
  two counters of a \<^verbatim>\<open>$inc\<close> change together.\<close>

definition sendWebhookEvent :: "int \<Rightarrow> int \<Rightarrow> webhook \<Rightarrow> webhook_event \<Rightarrow> axios_result \<Rightarrow> db \<Rightarrow> webhook_event \<times> db" where
  "sendWebhookEvent now duration wh ev res d =
     (let ev' = attempt_event now duration wh ev res;
          upd = (case res of
                   Resolved st \<Rightarrow> success_stats now st duration
                 | Rejected code msg \<Rightarrow> failure_stats now)
      in (ev', d\<lparr>webhook_events := save_event ev' (webhook_events d),
                 webhooks := findByIdAndUpdate (wid wh) upd (webhooks d)\<rparr>))"

text \<open>
  One delivery over time. The first attempt is the one \<open>queueWebhookEvent\<close> defers with
  \<^verbatim>\<open>setImmediate\<close>; every later one is made by \<open>retryFailedEvents\<close>, which selects
  events that are still pending. Each attempt comes with the time at which it completes,
  its duration and the outcome of its request.
\<close>

type_synonym attempt = "int \<times> int \<times> axios_result"


section \<open>The registry: validation\<close>

text \<open>
  \<^verbatim>\<open>document.save()\<close> runs the validators of the schema. Two checks are Mongoose's own
  and depend on the library, which is not part of the repository; they are parameters
  of the model: whether an array passes \<^verbatim>\<open>required\<close> (\<open>checkRequired\<close>, which in some
  versions rejects the empty array and in others does not) and whether a value casts to
  an ObjectId (\<open>isObjectId\<close>).
\<close>

record mongoose =
  checkRequired :: "string list \<Rightarrow> bool"
  isObjectId :: "json \<Rightarrow> bool"

definition allowed_events :: "string list" where
  "allowed_events = [''sms.sent'', ''sms.delivered'', ''sms.failed'', ''sms.bounced'', ''sms.read'']"

text \<open>The dot of a regular expression matches any character but a line terminator:
  LF, CR, U+2028 and U+2029 (three bytes each in UTF-8).\<close>

definition starts_with_line_terminator :: "string \<Rightarrow> bool" where
  "starts_with_line_terminator s =
     (prefix [CHR 0x0A] s \<or> prefix [CHR 0x0D] s
      \<or> prefix [CHR 0xE2, CHR 0x80, CHR 0xA8] s \<or> prefix [CHR 0xE2, CHR 0x80, CHR 0xA9] s)"

text \<open>The validator of \<open>url\<close>: \<^verbatim>\<open>/^https?:\/\/.+/.test(v)\<close>\<close>

definition url_validator :: "string \<Rightarrow> bool" where
  "url_validator v =
     (let rest = (if prefix ''https://'' v then Some (drop 8 v)
                  else if prefix ''http://'' v then Some (drop 7 v)
                  else None)
      in case rest of
           None \<Rightarrow> False
         | Some r \<Rightarrow> r \<noteq> [] \<and> \<not> starts_with_line_terminator r)"

text \<open>The first path of \<^verbatim>\<open>WebhookSchema\<close> that fails validation, if any. A required
  string fails when it is empty.\<close>

definition validate_webhook :: "mongoose \<Rightarrow> webhook \<Rightarrow> string option" where
  "validate_webhook m w =
     (if username w = [] then Some ''username''
      else if url w = [] \<or> \<not> url_validator (url w) then Some ''url''
      else if name w = [] then Some ''name''
      else if \<not> checkRequired m (events w) then Some ''events''
      else if \<not> list_all (\<lambda>e. e \<in> set allowed_events) (events w) then Some ''events''
      else if secret w = [] then Some ''secret''
      else if retryCount w < 1 \<or> 10 < retryCount w then Some ''retryCount''
      else if retryBackoffMs w < 1000 \<or> 3600000 < retryBackoffMs w then Some ''retryBackoffMs''
      else if maxPayloadSize w < 10240 \<or> 10485760 < maxPayloadSize w then Some ''maxPayloadSize''
      else None)"

text \<open>The message of a validation error, up to the path that failed. Mongoose goes on
  with a description that quotes the offending value; it is left out.\<close>

definition validation_message :: "string \<Rightarrow> string" where
  "validation_message path = ''webhooks validation failed: '' @ path"

text \<open>\<^verbatim>\<open>webhook.save()\<close> of a new document: validation, then the insertion, which the
  unique index on \<^verbatim>\<open>_id\<close> refuses for an id that is already stored.\<close>

definition insert_webhook :: "mongoose \<Rightarrow> webhook \<Rightarrow> db \<Rightarrow> string + db" where
  "insert_webhook m w d =
     (case validate_webhook m w of
        Some path \<Rightarrow> Inl (validation_message path)
      | None \<Rightarrow>
          (if findById (wid w) (webhooks d) \<noteq> None
           then Inl ''E11000 duplicate key error collection: webhooks''
           else Inr (d\<lparr>webhooks := webhooks d @ [w]\<rparr>)))"

text \<open>\<^verbatim>\<open>webhook.save()\<close> of a document that was loaded from the collection: validation,
  then the stored document of that id is replaced.\<close>

definition save_webhook :: "mongoose \<Rightarrow> webhook \<Rightarrow> db \<Rightarrow> string + db" where
  "save_webhook m w d =
     (case validate_webhook m w of
        Some path \<Rightarrow> Inl (validation_message path)
      | None \<Rightarrow> Inr (d\<lparr>webhooks := findByIdAndUpdate (wid w) (\<lambda>x. w) (webhooks d)\<rparr>))"

fun message :: "js_error \<Rightarrow> string" where
  "message (RangeError s) = s"
| "message (TypeError s) = s"
| "message (Error s) = s"

section \<open>The registry: WebhookService\<close>

text \<open>\<^verbatim>\<open>generateSecret()\<close>: the 16 bytes drawn from \<^verbatim>\<open>crypto.randomBytes(16)\<close>, a
  parameter of every operation that draws them, as 32 hexadecimal digits.\<close>

definition generateSecret :: "128 word \<Rightarrow> string" where
  "generateSecret rnd = map (\<lambda>i. hexdigit (unat rnd div 16 ^ (31 - i) mod 16)) [0..<32]"

text \<open>The fields of the request body that \<open>createWebhook\<close> reads; a field that is absent
  is \<open>None\<close>.\<close>

record create_body =
  b_url :: "string option"
  b_name :: "string option"
  b_description :: "string option"
  b_events :: "string list option"
  b_retryCount :: "int option"
  b_retryBackoffMs :: "int option"
  b_notifyOnFailure :: "bool option"

text \<open>\<^verbatim>\<open>x || d\<close> on an optional number: the default replaces an absent number and 0.\<close>

definition or_number :: "int option \<Rightarrow> int \<Rightarrow> int" where
  "or_number x d = (case x of None \<Rightarrow> d | Some v \<Rightarrow> if v = 0 then d else v)"

text \<open>\<^verbatim>\<open>WebhookService.createWebhook(data)\<close>, with the time, the id of the new document
  and the random bytes; the fields that the code does not set take the defaults of the
  schema.\<close>

definition createWebhook :: "mongoose \<Rightarrow> int \<Rightarrow> string \<Rightarrow> 128 word \<Rightarrow> string \<Rightarrow> create_body \<Rightarrow> db \<Rightarrow> js_error + (webhook \<times> db)" where
  "createWebhook m now new_id rnd user data d =
     (let webhook =
            \<lparr>wid = new_id,
             username = user,
             url = (case b_url data of None \<Rightarrow> [] | Some u \<Rightarrow> u),
             name = (case b_name data of None \<Rightarrow> [] | Some n \<Rightarrow> n),
             description = b_description data,
             events = (case b_events data of
                         None \<Rightarrow> [''sms.delivered'', ''sms.failed'']
                       | Some es \<Rightarrow> es),
             isActive = True,
             secret = generateSecret rnd,
             retryEnabled = True,
             retryCount = or_number (b_retryCount data) 3,
             retryBackoffMs = or_number (b_retryBackoffMs data) 5000,
             stats = \<lparr>totalCalls = 0, successfulCalls = 0, failedCalls = 0, lastCall = None,
                      lastCallStatus = None, averageResponseTime = None\<rparr>,
             notifyOnFailure = (b_notifyOnFailure data \<noteq> Some False),
             maxPayloadSize = 1048576,
             created_at = now,
             updated_at = now,
             lastUpdatedBy = None\<rparr>
      in case insert_webhook m webhook d of
           Inl msg \<Rightarrow> Inl (Error (''Failed to create webhook: '' @ msg))
         | Inr d' \<Rightarrow> Inr (webhook, d'))"

text \<open>\<^verbatim>\<open>WebhookService.getWebhookById(webhookId, username)\<close>\<close>

definition getWebhookById :: "string \<Rightarrow> string \<Rightarrow> db \<Rightarrow> js_error + webhook" where
  "getWebhookById webhook_id user d =
     (case findById webhook_id (webhooks d) of
        None \<Rightarrow> Inl (Error (''Failed to get webhook: '' @ ''Webhook not found with ID: '' @ webhook_id))
      | Some webhook \<Rightarrow>
          (if username webhook \<noteq> user
           then Inl (Error (''Failed to get webhook: '' @ ''Unauthorized: Cannot access this webhook''))
           else Inr webhook))"

text \<open>The fields a request body of an update may carry, among them fields that are not
  to be updated; a field that is not in the body is \<open>None\<close>.\<close>

record patch =
  p_url :: "string option"
  p_name :: "string option"
  p_description :: "string option"
  p_events :: "string list option"
  p_isActive :: "bool option"
  p_retryCount :: "int option"
  p_retryBackoffMs :: "int option"
  p_notifyOnFailure :: "bool option"
  p_retryEnabled :: "bool option"
  p_secret :: "string option"
  p_stats :: "webhook_stats option"
  p_username :: "string option"
  p_maxPayloadSize :: "int option"

text \<open>\<^verbatim>\<open>if (field in updates) webhook[field] = updates[field]\<close>, for any field.\<close>

definition assign :: "patch \<Rightarrow> string \<Rightarrow> webhook \<Rightarrow> webhook" where
  "assign updates field webhook =
     (if field = ''url'' then
        (case p_url updates of None \<Rightarrow> webhook | Some v \<Rightarrow> webhook\<lparr>url := v\<rparr>)
      else if field = ''name'' then
        (case p_name updates of None \<Rightarrow> webhook | Some v \<Rightarrow> webhook\<lparr>name := v\<rparr>)
      else if field = ''description'' then
        (case p_description updates of None \<Rightarrow> webhook
         | Some v \<Rightarrow> webhook\<lparr>description := Some v\<rparr>)
      else if field = ''events'' then
        (case p_events updates of None \<Rightarrow> webhook | Some v \<Rightarrow> webhook\<lparr>events := v\<rparr>)
      else if field = ''isActive'' then
        (case p_isActive updates of None \<Rightarrow> webhook | Some v \<Rightarrow> webhook\<lparr>isActive := v\<rparr>)
      else if field = ''retryCount'' then
        (case p_retryCount updates of None \<Rightarrow> webhook | Some v \<Rightarrow> webhook\<lparr>retryCount := v\<rparr>)
      else if field = ''retryBackoffMs'' then
        (case p_retryBackoffMs updates of None \<Rightarrow> webhook
         | Some v \<Rightarrow> webhook\<lparr>retryBackoffMs := v\<rparr>)
      else if field = ''notifyOnFailure'' then
        (case p_notifyOnFailure updates of None \<Rightarrow> webhook
         | Some v \<Rightarrow> webhook\<lparr>notifyOnFailure := v\<rparr>)
      else if field = ''retryEnabled'' then
        (case p_retryEnabled updates of None \<Rightarrow> webhook
         | Some v \<Rightarrow> webhook\<lparr>retryEnabled := v\<rparr>)
      else if field = ''secret'' then
        (case p_secret updates of None \<Rightarrow> webhook | Some v \<Rightarrow> webhook\<lparr>secret := v\<rparr>)
      else if field = ''stats'' then
        (case p_stats updates of None \<Rightarrow> webhook | Some v \<Rightarrow> webhook\<lparr>stats := v\<rparr>)
      else if field = ''username'' then
        (case p_username updates of None \<Rightarrow> webhook | Some v \<Rightarrow> webhook\<lparr>username := v\<rparr>)
      else if field = ''maxPayloadSize'' then
        (case p_maxPayloadSize updates of None \<Rightarrow> webhook
         | Some v \<Rightarrow> webhook\<lparr>maxPayloadSize := v\<rparr>)
      else webhook)"

definition allowedFields :: "string list" where
  "allowedFields = [''url'', ''name'', ''description'', ''events'', ''isActive'', ''retryCount'',
                    ''retryBackoffMs'', ''notifyOnFailure'']"

text \<open>The document of \<open>updateWebhook\<close> before it is saved.\<close>

definition updated_webhook :: "int \<Rightarrow> string \<Rightarrow> patch \<Rightarrow> webhook \<Rightarrow> webhook" where
  "updated_webhook now user updates webhook =
     (fold (assign updates) allowedFields webhook)\<lparr>updated_at := now, lastUpdatedBy := Some user\<rparr>"

text \<open>\<^verbatim>\<open>WebhookService.updateWebhook(webhookId, username, updates)\<close>\<close>

definition updateWebhook :: "mongoose \<Rightarrow> int \<Rightarrow> string \<Rightarrow> string \<Rightarrow> patch \<Rightarrow> db \<Rightarrow> js_error + (webhook \<times> db)" where
  "updateWebhook m now webhook_id user updates d =
     (case findById webhook_id (webhooks d) of
        None \<Rightarrow> Inl (Error (''Failed to update webhook: '' @ ''Webhook not found with ID: '' @ webhook_id))
      | Some webhook \<Rightarrow>
          (if username webhook \<noteq> user
           then Inl (Error (''Failed to update webhook: '' @ ''Unauthorized: Cannot update this webhook''))
           else (let webhook' = updated_webhook now user updates webhook
                 in case save_webhook m webhook' d of
                      Inl msg \<Rightarrow> Inl (Error (''Failed to update webhook: '' @ msg))
                    | Inr d' \<Rightarrow> Inr (webhook', d'))))"

text \<open>\<^verbatim>\<open>WebhookService.deleteWebhook(webhookId, username)\<close>\<close>

definition deleteWebhook :: "string \<Rightarrow> string \<Rightarrow> db \<Rightarrow> js_error + db" where
  "deleteWebhook webhook_id user d =
     (case findById webhook_id (webhooks d) of
        None \<Rightarrow> Inl (Error (''Failed to delete webhook: '' @ ''Webhook not found with ID: '' @ webhook_id))
      | Some webhook \<Rightarrow>
          (if username webhook \<noteq> user
           then Inl (Error (''Failed to delete webhook: '' @ ''Unauthorized: Cannot delete this webhook''))
           else Inr (d\<lparr>webhooks := filter (\<lambda>w. wid w \<noteq> webhook_id) (webhooks d)\<rparr>)))"

text \<open>\<^verbatim>\<open>WebhookService.rotateSecret(webhookId, username)\<close>\<close>

definition rotateSecret :: "mongoose \<Rightarrow> int \<Rightarrow> 128 word \<Rightarrow> string \<Rightarrow> string \<Rightarrow> db \<Rightarrow> js_error + (webhook \<times> db)" where
  "rotateSecret m now rnd webhook_id user d =
     (case findById webhook_id (webhooks d) of
        None \<Rightarrow> Inl (Error (''Failed to rotate secret: '' @ ''Webhook not found with ID: '' @ webhook_id))
      | Some webhook \<Rightarrow>
          (if username webhook \<noteq> user
           then Inl (Error (''Failed to rotate secret: '' @ ''Unauthorized: Cannot rotate secret''))
           else (let webhook' = webhook\<lparr>secret := generateSecret rnd, updated_at := now\<rparr>
                 in case save_webhook m webhook' d of
                      Inl msg \<Rightarrow> Inl (Error (''Failed to rotate secret: '' @ msg))
                    | Inr d' \<Rightarrow> Inr (webhook', d'))))"

text \<open>\<^verbatim>\<open>WebhookService.sendTestWebhook(webhookId, username)\<close>. The probe that is signed
  and posted, the request, and the result for the outcome of the request.\<close>

definition testData :: "string \<Rightarrow> json" where
  "testData ts =
     JObj [(''event'', JStr ''webhook.test''),
           (''timestamp'', JStr ts),
           (''data'', JObj [(''logId'', JStr ''000000000000000000000000''),
                           (''provider'', JStr ''test''),
                           (''recipient'', JStr ''+1234567890''),
                           (''status'', JStr ''delivered''),
                           (''messageId'', JStr ''test-msg-id''),
                           (''cost'', JDec ''0.067''),
                           (''message'', JStr ''This is a test webhook delivery'')])]"

definition sendTestWebhook_post :: "hmac_sha256 \<Rightarrow> string \<Rightarrow> int \<Rightarrow> webhook \<Rightarrow> http_request" where
  "sendTestWebhook_post hmac ts now wh =
     (let payload = stringify (testData ts);
          sig = generateSignature hmac payload (secret wh)
      in \<lparr>req_url = url wh,
          req_body = stringify (testData ts),
          x_webhook_signature = sig,
          x_webhook_event = ''webhook.test'',
          x_webhook_delivery = ''test-'' @ show_int now,
          content_type = ''application/json''\<rparr>)"

record test_result =
  t_success :: bool
  t_httpStatusCode :: "int option"
  t_responseTime :: int
  t_error :: "string option"
  t_message :: string

definition sendTestWebhook :: "hmac_sha256 \<Rightarrow> string \<Rightarrow> int \<Rightarrow> int \<Rightarrow> axios_result \<Rightarrow> string \<Rightarrow> string \<Rightarrow> db \<Rightarrow> js_error + (test_result \<times> http_request)" where
  "sendTestWebhook hmac ts now duration res webhook_id user d =
     (case getWebhookById webhook_id user d of
        Inl e \<Rightarrow> Inl (Error (''Failed to send test webhook: '' @ message e))
      | Inr webhook \<Rightarrow>
          Inr (case res of
                 Resolved st \<Rightarrow>
                   \<lparr>t_success = True, t_httpStatusCode = Some st, t_responseTime = duration,
                    t_error = None, t_message = ''Test webhook sent successfully''\<rparr>
               | Rejected code msg \<Rightarrow>
                   \<lparr>t_success = False, t_httpStatusCode = code, t_responseTime = duration,
                    t_error = Some msg, t_message = ''Test webhook failed''\<rparr>,
               sendTestWebhook_post hmac ts now webhook))"

text \<open>\<^verbatim>\<open>WebhookService.getWebhookEvents(webhookId, filters)\<close>, with the filters as the
  route passes them: the limit and the offset parsed, every other filter possibly absent.
  A limit of 0 is no limit for the query, and makes the page numbers infinite or
  undefined, which JSON renders as \<^verbatim>\<open>null\<close>. Events created at the same time keep
  the order of the collection.\<close>

record event_filters =
  f_limit :: nat
  f_offset :: nat
  f_status :: "string option"
  f_eventType :: "string option"
  f_startDate :: "int option"
  f_endDate :: "int option"

fun status_name :: "event_status \<Rightarrow> string" where
  "status_name Pending = ''pending''"
| "status_name Sent = ''sent''"
| "status_name Failed = ''failed''"
| "status_name Success = ''success''"

definition event_query :: "string \<Rightarrow> event_filters \<Rightarrow> webhook_event \<Rightarrow> bool" where
  "event_query webhook_id f e =
     (webhookId e = webhook_id
      \<and> (case f_status f of None \<Rightarrow> True | Some s \<Rightarrow> s = [] \<or> status_name (status e) = s)
      \<and> (case f_eventType f of None \<Rightarrow> True | Some t \<Rightarrow> t = [] \<or> eventType e = t)
      \<and> (case f_startDate f of None \<Rightarrow> True | Some t \<Rightarrow> t \<le> createdAt e)
      \<and> (case f_endDate f of None \<Rightarrow> True | Some t \<Rightarrow> createdAt e \<le> t))"

record events_page =
  pg_total :: nat
  pg_limit :: nat
  pg_offset :: nat
  pg_page :: "nat option"
  pg_totalPages :: "nat option"
  pg_hasMore :: bool
  pg_data :: "webhook_event list"

definition getWebhookEvents :: "string \<Rightarrow> event_filters \<Rightarrow> db \<Rightarrow> events_page" where
  "getWebhookEvents webhook_id f d =
     (let found = filter (event_query webhook_id f) (webhook_events d);
          total = length found;
          ordered = sort_key (\<lambda>e. - createdAt e) found;
          skipped = drop (f_offset f) ordered
      in \<lparr>pg_total = total,
          pg_limit = f_limit f,
          pg_offset = f_offset f,
          pg_page = (if f_limit f = 0 then None else Some (f_offset f div f_limit f + 1)),
          pg_totalPages =
            (if f_limit f = 0 then None else Some ((total + f_limit f - 1) div f_limit f)),
          pg_hasMore = (f_offset f + f_limit f < total),
          pg_data = (if f_limit f = 0 then skipped else take (f_limit f) skipped)\<rparr>)"

text \<open>\<^verbatim>\<open>WebhookService.getWebhookStats(webhookId)\<close>. The pipeline of the aggregation
  mentions \<^verbatim>\<open>mongoose.Types.ObjectId\<close>, and the module binds no name
  \<^verbatim>\<open>mongoose\<close>: for a webhook that exists, building the pipeline throws a
  ReferenceError, which the \<^verbatim>\<open>catch\<close> wraps like any other error.\<close>

definition getWebhookStats :: "string \<Rightarrow> db \<Rightarrow> js_error + json" where
  "getWebhookStats webhook_id d =
     (case findById webhook_id (webhooks d) of
        None \<Rightarrow> Inl (Error (''Failed to get webhook stats: '' @ ''Webhook not found with ID: '' @ webhook_id))
      | Some webhook \<Rightarrow> Inl (Error (''Failed to get webhook stats: '' @ ''mongoose is not defined'')))"

section \<open>The admin routes\<close>

text \<open>A response is its HTTP status and its JSON body. Dates, which Express renders
  as ISO strings, are kept as numbers of milliseconds; a field that is undefined is left
  out of the body.\<close>

datatype response = Response int json

fun status_code :: "response \<Rightarrow> int" where
  "status_code (Response c b) = c"

definition failure :: "string \<Rightarrow> json" where
  "failure msg = JObj [(''success'', JBool False), (''msg'', JStr msg)]"

text \<open>\<^verbatim>\<open>s.includes(t)\<close>\<close>

fun str_includes :: "string \<Rightarrow> string \<Rightarrow> bool" where
  "str_includes [] t = (t = [])"
| "str_includes (c # cs) t = (prefix t (c # cs) \<or> str_includes cs t)"

text \<open>The \<^verbatim>\<open>catch\<close> of every route on one webhook.\<close>

definition error_response :: "js_error \<Rightarrow> response" where
  "error_response e =
     Response (if str_includes (message e) ''not found'' then 404 else 403) (failure (message e))"

definition opt_str :: "string \<Rightarrow> string option \<Rightarrow> (string \<times> json) list" where
  "opt_str k v = (case v of None \<Rightarrow> [] | Some x \<Rightarrow> [(k, JStr x)])"

definition opt_num :: "string \<Rightarrow> int option \<Rightarrow> (string \<times> json) list" where
  "opt_num k v = (case v of None \<Rightarrow> [] | Some x \<Rightarrow> [(k, JNum x)])"

definition stats_json :: "webhook_stats \<Rightarrow> json" where
  "stats_json st =
     JObj ([(''totalCalls'', JNum (int (totalCalls st))),
            (''successfulCalls'', JNum (int (successfulCalls st))),
            (''failedCalls'', JNum (int (failedCalls st)))]
           @ opt_num ''lastCall'' (lastCall st)
           @ opt_num ''lastCallStatus'' (lastCallStatus st)
           @ opt_num ''averageResponseTime'' (averageResponseTime st))"

definition present :: "string option \<Rightarrow> bool" where
  "present v = (case v of None \<Rightarrow> False | Some x \<Rightarrow> x \<noteq> [])"

text \<open>\<^verbatim>\<open>POST /api/webhooks\<close>\<close>

definition post_webhooks :: "mongoose \<Rightarrow> int \<Rightarrow> string \<Rightarrow> 128 word \<Rightarrow> string \<Rightarrow> create_body \<Rightarrow> db \<Rightarrow> response \<times> db" where
  "post_webhooks m now new_id rnd user body d =
     (if \<not> present (b_url body) \<or> \<not> present (b_name body)
      then (Response 400 (failure ''URL and name are required''), d)
      else if \<not> prefix ''https://'' (case b_url body of None \<Rightarrow> [] | Some u \<Rightarrow> u)
              \<and> \<not> prefix ''http://'' (case b_url body of None \<Rightarrow> [] | Some u \<Rightarrow> u)
      then (Response 400 (failure ''Webhook URL must start with http:// or https://''), d)
      else (case createWebhook m now new_id rnd user body d of
              Inl e \<Rightarrow> (Response 500 (failure (message e)), d)
            | Inr (webhook, d') \<Rightarrow>
                (Response 201
                   (JObj [(''success'', JBool True),
                          (''msg'', JStr ''Webhook created successfully''),
                          (''data'', JObj ([(''_id'', JStr (wid webhook)),
                                           (''url'', JStr (url webhook)),
                                           (''name'', JStr (name webhook))]
                                          @ opt_str ''description'' (description webhook)
                                          @ [(''events'', JArr (map JStr (events webhook))),
                                             (''isActive'', JBool (isActive webhook)),
                                             (''secret'', JStr (secret webhook)),
                                             (''created_at'', JNum (created_at webhook))]))]),
                 d')))"

text \<open>\<^verbatim>\<open>GET /api/webhooks/:webhookId\<close>\<close>

definition get_webhook :: "string \<Rightarrow> string \<Rightarrow> db \<Rightarrow> response" where
  "get_webhook user webhook_id d =
     (case getWebhookById webhook_id user d of
        Inl e \<Rightarrow> error_response e
      | Inr webhook \<Rightarrow>
          Response 200
            (JObj [(''success'', JBool True),
                   (''data'', JObj ([(''_id'', JStr (wid webhook)),
                                    (''name'', JStr (name webhook)),
                                    (''url'', JStr (url webhook))]
                                   @ opt_str ''description'' (description webhook)
                                   @ [(''events'', JArr (map JStr (events webhook))),
                                      (''isActive'', JBool (isActive webhook)),
                                      (''secret'', JStr (secret webhook)),
                                      (''retryEnabled'', JBool (retryEnabled webhook)),
                                      (''retryCount'', JNum (retryCount webhook)),
                                      (''retryBackoffMs'', JNum (retryBackoffMs webhook)),
                                      (''notifyOnFailure'', JBool (notifyOnFailure webhook)),
                                      (''maxPayloadSize'', JNum (maxPayloadSize webhook)),
                                      (''stats'', stats_json (stats webhook)),
                                      (''created_at'', JNum (created_at webhook)),
                                      (''updated_at'', JNum (updated_at webhook))]))]))"

text \<open>\<^verbatim>\<open>PUT /api/webhooks/:webhookId\<close>\<close>

definition put_webhook :: "mongoose \<Rightarrow> int \<Rightarrow> string \<Rightarrow> string \<Rightarrow> patch \<Rightarrow> db \<Rightarrow> response \<times> db" where
  "put_webhook m now user webhook_id body d =
     (case updateWebhook m now webhook_id user body d of
        Inl e \<Rightarrow> (error_response e, d)
      | Inr (webhook, d') \<Rightarrow>
          (Response 200
             (JObj [(''success'', JBool True),
                    (''msg'', JStr ''Webhook updated successfully''),
                    (''data'', JObj [(''_id'', JStr (wid webhook)),
                                    (''name'', JStr (name webhook)),
                                    (''url'', JStr (url webhook)),
                                    (''events'', JArr (map JStr (events webhook))),
                                    (''isActive'', JBool (isActive webhook)),
                                    (''updated_at'', JNum (updated_at webhook))])]),
           d'))"

text \<open>\<^verbatim>\<open>DELETE /api/webhooks/:webhookId\<close>\<close>

definition delete_webhook :: "string \<Rightarrow> string \<Rightarrow> db \<Rightarrow> response \<times> db" where
  "delete_webhook user webhook_id d =
     (case deleteWebhook webhook_id user d of
        Inl e \<Rightarrow> (error_response e, d)
      | Inr d' \<Rightarrow>
          (Response 200 (JObj [(''success'', JBool True),
                               (''msg'', JStr ''Webhook deleted successfully'')]),
           d'))"

text \<open>\<^verbatim>\<open>POST /api/webhooks/:webhookId/rotate-secret\<close>\<close>

definition post_rotate_secret :: "mongoose \<Rightarrow> int \<Rightarrow> 128 word \<Rightarrow> string \<Rightarrow> string \<Rightarrow> db \<Rightarrow> response \<times> db" where
  "post_rotate_secret m now rnd user webhook_id d =
     (case rotateSecret m now rnd webhook_id user d of
        Inl e \<Rightarrow> (error_response e, d)
      | Inr (webhook, d') \<Rightarrow>
          (Response 200
             (JObj [(''success'', JBool True),
                    (''msg'', JStr ''Webhook secret rotated successfully''),
                    (''data'', JObj [(''_id'', JStr (wid webhook)),
                                    (''secret'', JStr (secret webhook)),
                                    (''updated_at'', JNum (updated_at webhook))])]),
           d'))"

text \<open>\<^verbatim>\<open>POST /api/webhooks/:webhookId/test\<close>: the response and the requests that were
  sent to the subscriber.\<close>

definition post_test :: "hmac_sha256 \<Rightarrow> string \<Rightarrow> int \<Rightarrow> int \<Rightarrow> axios_result \<Rightarrow> string \<Rightarrow> string \<Rightarrow> db \<Rightarrow> response \<times> http_request list" where
  "post_test hmac ts now duration res user webhook_id d =
     (case sendTestWebhook hmac ts now duration res webhook_id user d of
        Inl e \<Rightarrow> (error_response e, [])
      | Inr (result, request) \<Rightarrow>
          (Response 200
             (JObj [(''success'', JBool (t_success result)),
                    (''msg'', JStr (t_message result)),
                    (''data'', JObj (opt_num ''httpStatusCode'' (t_httpStatusCode result)
                                    @ [(''responseTime'', JNum (t_responseTime result)),
                                       (''error'', (case t_error result of
                                                      None \<Rightarrow> JNull
                                                    | Some x \<Rightarrow>
                                                        if x = [] then JNull else JStr x))]))]),
           [request]))"

definition opt_nat :: "nat option \<Rightarrow> json" where
  "opt_nat v = (case v of None \<Rightarrow> JNull | Some n \<Rightarrow> JNum (int n))"

definition event_json :: "webhook_event \<Rightarrow> json" where
  "event_json e =
     JObj ([(''_id'', JStr (eid e)),
            (''eventType'', JStr (eventType e)),
            (''status'', JStr (status_name (status e))),
            (''attempts'', JNum (int (attempts e))),
            (''maxAttempts'', JNum (maxAttempts e))]
           @ opt_num ''httpStatusCode'' (httpStatusCode e)
           @ opt_num ''requestDurationMs'' (requestDurationMs e)
           @ opt_str ''lastAttemptError'' (lastAttemptError e)
           @ [(''createdAt'', JNum (createdAt e))]
           @ opt_num ''sentAt'' (sentAt e)
           @ opt_num ''nextRetryTime'' (nextRetryTime e))"

text \<open>\<^verbatim>\<open>GET /api/webhooks/:webhookId/events\<close>\<close>

definition get_events :: "string \<Rightarrow> string \<Rightarrow> event_filters \<Rightarrow> db \<Rightarrow> response" where
  "get_events user webhook_id f d =
     (case getWebhookById webhook_id user d of
        Inl e \<Rightarrow> error_response e
      | Inr webhook \<Rightarrow>
          (let page = getWebhookEvents webhook_id f d
           in Response 200
                (JObj [(''success'', JBool True),
                       (''pagination'', JObj [(''total'', JNum (int (pg_total page))),
                                              (''limit'', JNum (int (pg_limit page))),
                                              (''offset'', JNum (int (pg_offset page))),
                                              (''page'', opt_nat (pg_page page)),
                                              (''totalPages'', opt_nat (pg_totalPages page)),
                                              (''hasMore'', JBool (pg_hasMore page))]),
                       (''data'', JArr (map event_json (pg_data page)))])))"

text \<open>\<^verbatim>\<open>GET /api/webhooks/:webhookId/stats\<close>\<close>

definition get_stats :: "string \<Rightarrow> string \<Rightarrow> db \<Rightarrow> response" where
  "get_stats user webhook_id d =
     (case getWebhookById webhook_id user d of
        Inl e \<Rightarrow> error_response e
      | Inr webhook \<Rightarrow>
          (case getWebhookStats webhook_id d of
             Inl e \<Rightarrow> error_response e
           | Inr stats_data \<Rightarrow>
               Response 200 (JObj [(''success'', JBool True), (''data'', stats_data)])))"

text \<open>The admin operations on one subscription, each with the inputs of its route, and
  what a caller gets from them: the response, the requests sent on the caller's behalf
  and the collections afterwards.\<close>

datatype admin_op =
    Get
  | Update patch
  | Delete
  | RotateSecret "128 word"
  | Test string int axios_result
  | Events event_filters
  | Stats

fun admin :: "mongoose \<Rightarrow> hmac_sha256 \<Rightarrow> int \<Rightarrow> string \<Rightarrow> string \<Rightarrow> admin_op \<Rightarrow> db \<Rightarrow> response \<times> http_request list \<times> db" where
  "admin m hmac now user webhook_id Get d = (get_webhook user webhook_id d, [], d)"
| "admin m hmac now user webhook_id (Update body) d =
     (case put_webhook m now user webhook_id body d of (r, d') \<Rightarrow> (r, [], d'))"
| "admin m hmac now user webhook_id Delete d =
     (case delete_webhook user webhook_id d of (r, d') \<Rightarrow> (r, [], d'))"
| "admin m hmac now user webhook_id (RotateSecret rnd) d =
     (case post_rotate_secret m now rnd user webhook_id d of (r, d') \<Rightarrow> (r, [], d'))"
| "admin m hmac now user webhook_id (Test ts duration res) d =
     (case post_test hmac ts now duration res user webhook_id d of (r, reqs) \<Rightarrow> (r, reqs, d))"
| "admin m hmac now user webhook_id (Events f) d = (get_events user webhook_id f d, [], d)"
| "admin m hmac now user webhook_id Stats d = (get_stats user webhook_id d, [], d)"

text \<open>The message of the error that each operation throws for a webhook of another
  user: a constant of the operation.\<close>

fun unauthorized :: "admin_op \<Rightarrow> string" where
  "unauthorized Get = ''Failed to get webhook: Unauthorized: Cannot access this webhook''"
| "unauthorized (Update body) = ''Failed to update webhook: Unauthorized: Cannot update this webhook''"
| "unauthorized Delete = ''Failed to delete webhook: Unauthorized: Cannot delete this webhook''"
| "unauthorized (RotateSecret rnd) = ''Failed to rotate secret: Unauthorized: Cannot rotate secret''"
| "unauthorized (Test ts duration res) =
     ''Failed to send test webhook: Failed to get webhook: Unauthorized: Cannot access this webhook''"
| "unauthorized (Events f) = ''Failed to get webhook: Unauthorized: Cannot access this webhook''"
| "unauthorized Stats = ''Failed to get webhook: Unauthorized: Cannot access this webhook''"

section \<open>The router: triggerEvent and queueWebhookEvent\<close>

text \<open>The first path of \<^verbatim>\<open>WebhookEventSchema\<close> that fails validation for a new
  event, if any; the payload of a new event is never \<^verbatim>\<open>null\<close>.\<close>

definition validate_event :: "mongoose \<Rightarrow> webhook_event \<Rightarrow> string option" where
  "validate_event m e =
     (if \<not> list_ex (\<lambda>a. a = eventType e) allowed_events then Some ''eventType''
      else if (case logId e of None \<Rightarrow> False | Some v \<Rightarrow> \<not> isObjectId m v) then Some ''logId''
      else if maxAttempts e < 1 then Some ''maxAttempts''
      else None)"

text \<open>\<^verbatim>\<open>eventData.logId || null\<close>: reading a property of \<^verbatim>\<open>null\<close> throws a
  TypeError; a value that is not an object has no such property.\<close>

definition logId_of :: "json \<Rightarrow> js_error + json option" where
  "logId_of eventData =
     (case eventData of
        JNull \<Rightarrow> Inl (TypeError ''Cannot read properties of null'')
      | JObj kvs \<Rightarrow>
          Inr (case get_prop kvs ''logId'' of
                 None \<Rightarrow> None
               | Some v \<Rightarrow> if truthy v then Some v else None)
      | _ \<Rightarrow> Inr None)"

text \<open>The body of the \<^verbatim>\<open>try\<close> of \<open>queueWebhookEvent\<close> up to the save: the new event
  and the collections with it, or the error that is thrown.\<close>

definition queueWebhookEvent_try :: "mongoose \<Rightarrow> int \<Rightarrow> string \<Rightarrow> webhook \<Rightarrow> string \<Rightarrow> json \<Rightarrow> db \<Rightarrow> js_error + (webhook_event \<times> db)" where
  "queueWebhookEvent_try m now new_id webhook event_type eventData d =
     (case logId_of eventData of
        Inl e \<Rightarrow> Inl e
      | Inr l \<Rightarrow>
          (let webhookEvent =
                 \<lparr>eid = new_id, webhookId = wid webhook, logId = l, eventType = event_type,
                  payload = eventData, status = Pending, httpStatusCode = None, attempts = 0,
                  maxAttempts = retryCount webhook, lastAttemptTime = None,
                  lastAttemptError = None, nextRetryTime = None, requestDurationMs = None,
                  signature = None, createdAt = now, sentAt = None\<rparr>
           in case validate_event m webhookEvent of
                Some path \<Rightarrow> Inl (Error (''webhook_events validation failed: '' @ path))
              | None \<Rightarrow>
                  Inr (webhookEvent, d\<lparr>webhook_events := webhook_events d @ [webhookEvent]\<rparr>)))"

text \<open>\<^verbatim>\<open>WebhookService.queueWebhookEvent(webhook, eventType, eventData)\<close>: the saved
  event, whose sending is deferred with \<^verbatim>\<open>setImmediate\<close>; an error is logged and
  nothing is returned.\<close>

definition queueWebhookEvent :: "mongoose \<Rightarrow> int \<Rightarrow> string \<Rightarrow> webhook \<Rightarrow> string \<Rightarrow> json \<Rightarrow> db \<Rightarrow> webhook_event option \<times> db" where
  "queueWebhookEvent m now new_id webhook event_type eventData d =
     (case queueWebhookEvent_try m now new_id webhook event_type eventData d of
        Inl e \<Rightarrow> (None, d)
      | Inr (webhookEvent, d') \<Rightarrow> (Some webhookEvent, d'))"

text \<open>The query of \<open>triggerEvent\<close>: the active webhooks of the user that subscribe to
  the event type.\<close>

definition subscribed :: "string \<Rightarrow> string \<Rightarrow> webhook \<Rightarrow> bool" where
  "subscribed user event_type w =
     (username w = user \<and> isActive w \<and> list_ex (\<lambda>e. e = event_type) (events w))"

text \<open>The loop of \<open>triggerEvent\<close> over the webhooks found; the \<open>k\<close>-th event it creates
  gets the id \<open>gen k\<close>. It returns the sends it has deferred and the collections as the
  loop leaves them. A deferred send is not run here: it is a later
  \<open>sendWebhookEvent\<close> of the transition system, which the event loop may run as soon as
  the row is saved.\<close>

fun queue_all :: "mongoose \<Rightarrow> int \<Rightarrow> (nat \<Rightarrow> string) \<Rightarrow> nat \<Rightarrow> string \<Rightarrow> json \<Rightarrow> webhook list \<Rightarrow> db \<Rightarrow> (webhook \<times> webhook_event) list \<times> db" where
  "queue_all m now gen k event_type eventData [] d = ([], d)"
| "queue_all m now gen k event_type eventData (w # ws) d =
     (case queueWebhookEvent m now (gen k) w event_type eventData d of
        (None, d') \<Rightarrow> queue_all m now gen k event_type eventData ws d'
      | (Some ev, d') \<Rightarrow>
          (case queue_all m now gen (Suc k) event_type eventData ws d' of
             (deferred, d'') \<Rightarrow> ((w, ev) # deferred, d'')))"

text \<open>\<^verbatim>\<open>WebhookService.triggerEvent(username, eventType, eventData)\<close>\<close>

definition triggerEvent :: "mongoose \<Rightarrow> int \<Rightarrow> (nat \<Rightarrow> string) \<Rightarrow> string \<Rightarrow> string \<Rightarrow> json \<Rightarrow> db \<Rightarrow> (webhook \<times> webhook_event) list \<times> db" where
  "triggerEvent m now gen user event_type eventData d =
     queue_all m now gen 0 event_type eventData
       (filter (subscribed user event_type) (webhooks d)) d"

section \<open>The retry job: retryFailedEvents\<close>

definition due :: "int \<Rightarrow> webhook_event \<Rightarrow> bool" where
  "due now e = (status e = Pending \<and> (case nextRetryTime e of None \<Rightarrow> False | Some t \<Rightarrow> t \<le> now))"

record retry_results =
  processed :: nat
  successful :: nat
  failed :: nat

text \<open>
  \<open>sendWebhookEvent\<close> on an event whose webhook was deleted, so that \<^verbatim>\<open>populate\<close>
  left \<^verbatim>\<open>null\<close>: reading \<^verbatim>\<open>webhook.secret\<close> throws inside the \<^verbatim>\<open>try\<close>; the
  \<^verbatim>\<open>catch\<close> counts the attempt, and then either throws again on
  \<^verbatim>\<open>webhook.retryBackoffMs\<close>, before anything is saved, or saves the event as failed
  and throws on \<^verbatim>\<open>webhook._id\<close>. Either way the call is rejected.
\<close>

definition send_orphan :: "int \<Rightarrow> webhook_event \<Rightarrow> db \<Rightarrow> db" where
  "send_orphan now ev d =
     (if int (attempts ev) + 1 < maxAttempts ev then d
      else d\<lparr>webhook_events :=
               save_event (ev\<lparr>attempts := attempts ev + 1, lastAttemptTime := Some now,
                               lastAttemptError := Some ''Cannot read properties of null'',
                               status := Failed\<rparr>)
                 (webhook_events d)\<rparr>)"

text \<open>The loop of \<open>retryFailedEvents\<close> over the events found, each with its populated
  webhook; \<open>respond\<close> gives, for an event, the time at which its request completes, its
  duration and its outcome.\<close>

fun retry_loop :: "(webhook_event \<Rightarrow> attempt) \<Rightarrow> (webhook option \<times> webhook_event) list \<Rightarrow> retry_results \<times> db \<Rightarrow> retry_results \<times> db" where
  "retry_loop respond [] (results, d) = (results, d)"
| "retry_loop respond ((Some wh, ev) # rest) (results, d) =
     (case respond ev of
        (now, duration, res) \<Rightarrow>
          retry_loop respond rest
            (results\<lparr>processed := processed results + 1, successful := successful results + 1\<rparr>,
             snd (sendWebhookEvent now duration wh ev res d)))"
| "retry_loop respond ((None, ev) # rest) (results, d) =
     (case respond ev of
        (now, duration, res) \<Rightarrow>
          retry_loop respond rest
            (results\<lparr>processed := processed results + 1, failed := failed results + 1\<rparr>,
             send_orphan now ev d))"

text \<open>\<^verbatim>\<open>WebhookService.retryFailedEvents()\<close> at time \<open>now\<close>\<close>

definition retryFailedEvents :: "int \<Rightarrow> (webhook_event \<Rightarrow> attempt) \<Rightarrow> db \<Rightarrow> retry_results \<times> db" where
  "retryFailedEvents now respond d =
     (let retryEvents = filter (due now) (webhook_events d);
          populated = map (\<lambda>e. (findById (webhookId e) (webhooks d), e)) retryEvents
      in retry_loop respond populated (\<lparr>processed = 0, successful = 0, failed = 0\<rparr>, d))"

section \<open>The service as a transition system\<close>

text \<open>Every operation that writes the collections, with its inputs and what the
  environment contributes to it (times, new ids, random bytes, outcomes of requests).\<close>

datatype operation =
    Create int string "128 word" string create_body
  | Admin int string string admin_op
  | Trigger int "nat \<Rightarrow> string" string string json
  | Send int int webhook webhook_event axios_result
  | Retry int "webhook_event \<Rightarrow> attempt"

fun apply_operation :: "mongoose \<Rightarrow> hmac_sha256 \<Rightarrow> operation \<Rightarrow> db \<Rightarrow> db" where
  "apply_operation m hmac (Create now new_id rnd user body) d =
     snd (post_webhooks m now new_id rnd user body d)"
| "apply_operation m hmac (Admin now user webhook_id op) d =
     snd (snd (admin m hmac now user webhook_id op d))"
| "apply_operation m hmac (Trigger now gen user event_type eventData) d =
     snd (triggerEvent m now gen user event_type eventData d)"
| "apply_operation m hmac (Send now duration wh ev res) d =
     snd (sendWebhookEvent now duration wh ev res d)"
| "apply_operation m hmac (Retry now respond) d = snd (retryFailedEvents now respond d)"

definition empty_db :: db where
  "empty_db = \<lparr>webhooks = [], webhook_events = []\<rparr>"

definition run :: "mongoose \<Rightarrow> hmac_sha256 \<Rightarrow> operation list \<Rightarrow> db \<Rightarrow> db" where
  "run m hmac ops d = fold (apply_operation m hmac) ops d"

text \<open>The invariant of the statistics of a subscription, and of all that are stored.\<close>

definition stats_consistent :: "webhook \<Rightarrow> bool" where
  "stats_consistent w = (successfulCalls (stats w) + failedCalls (stats w) = totalCalls (stats w))"

definition db_consistent :: "db \<Rightarrow> bool" where
  "db_consistent d = list_all stats_consistent (webhooks d)"

section \<open>Predicates of the specification\<close>

text \<open>A deferred send of a webhook and the event queued for it, as \<open>triggerEvent\<close>
  creates them for an event type and event data.\<close>

definition queued :: "string \<Rightarrow> json \<Rightarrow> webhook \<times> webhook_event \<Rightarrow> bool" where
  "queued event_type eventData p =
     (status (snd p) = Pending \<and> attempts (snd p) = 0 \<and> eventType (snd p) = event_type
      \<and> payload (snd p) = eventData \<and> webhookId (snd p) = wid (fst p)
      \<and> maxAttempts (snd p) = retryCount (fst p))"

text \<open>The counters of \<open>w'\<close> are those of \<open>w\<close> after some calls were counted: none has
  decreased, and \<open>totalCalls\<close> has grown by as much as \<open>successfulCalls\<close> and
  \<open>failedCalls\<close> together.\<close>

definition stats_le :: "webhook \<Rightarrow> webhook \<Rightarrow> bool" where
  "stats_le w w' =
     (totalCalls (stats w) \<le> totalCalls (stats w')
      \<and> successfulCalls (stats w) \<le> successfulCalls (stats w')
      \<and> failedCalls (stats w) \<le> failedCalls (stats w')
      \<and> totalCalls (stats w') - totalCalls (stats w)
          = (successfulCalls (stats w') - successfulCalls (stats w))
            + (failedCalls (stats w') - failedCalls (stats w)))"

text \<open>The operations that send requests to subscribers.\<close>

fun delivery :: "operation \<Rightarrow> bool" where
  "delivery (Send now duration wh ev res) = True"
| "delivery (Retry now respond) = True"
| "delivery (Create now new_id rnd user body) = False"
| "delivery (Admin now user webhook_id op) = False"
| "delivery (Trigger now gen user event_type eventData) = False"

text \<open>The same documents, by id and in order, with statistics that have not decreased
  and are consistent if they were.\<close>

definition grown :: "webhook list \<Rightarrow> webhook list \<Rightarrow> bool" where
  "grown ws ws' =
     list_all2 (\<lambda>w w'. wid w' = wid w \<and> stats_le w w'
                          \<and> (stats_consistent w \<longrightarrow> stats_consistent w')) ws ws'"

text \<open>The stored subscriptions after an operation are the old ones, or the old ones
  with one appended, with one id removed, with the documents of one id replaced, or
  with grown statistics.\<close>

datatype change =
    Same
  | Added webhook
  | Removed string
  | Replaced string webhook
  | Grown

fun changed :: "change \<Rightarrow> webhook list \<Rightarrow> webhook list \<Rightarrow> bool" where
  "changed Same ws ws' = (ws' = ws)"
| "changed (Added w) ws ws' =
     (ws' = ws @ [w] \<and> findById (wid w) ws = None \<and> totalCalls (stats w) = 0
      \<and> successfulCalls (stats w) = 0 \<and> failedCalls (stats w) = 0)"
| "changed (Removed i) ws ws' = (ws' = filter (\<lambda>w. wid w \<noteq> i) ws)"
| "changed (Replaced i w') ws ws' =
     (ws' = findByIdAndUpdate i (\<lambda>x. w') ws \<and> wid w' = i
      \<and> (\<exists>w. findById i ws = Some w \<and> stats w' = stats w))"
| "changed Grown ws ws' = grown ws ws'"

section \<open>Sample data\<close>

definition new_stats :: webhook_stats where
  "new_stats = \<lparr>totalCalls = 0, successfulCalls = 0, failedCalls = 0, lastCall = None,
                lastCallStatus = None, averageResponseTime = None\<rparr>"

definition sample_webhook :: webhook where
  "sample_webhook =
     \<lparr>wid = ''w1'', username = ''alice'', url = ''http://example.test/hook'',
      name = ''hook'', description = None, events = [''sms.delivered'', ''sms.failed''],
      isActive = True, secret = ''00112233445566778899aabbccddeeff'',
      retryEnabled = True, retryCount = 3, retryBackoffMs = 1000, stats = new_stats,
      notifyOnFailure = True, maxPayloadSize = 1048576, created_at = 0, updated_at = 0,
      lastUpdatedBy = None\<rparr>"

definition sample_event :: webhook_event where
  "sample_event =
     \<lparr>eid = ''e1'', webhookId = ''w1'', logId = None, eventType = ''sms.delivered'',
      payload = JObj [(''id'', JStr ''x1'')], status = Pending, httpStatusCode = None,
      attempts = 0, maxAttempts = 3, lastAttemptTime = None, lastAttemptError = None,
      nextRetryTime = None, requestDurationMs = None, signature = None, createdAt = 0,
      sentAt = None\<rparr>"

text \<open>A Mongoose whose \<^verbatim>\<open>required\<close> accepts every array and for which the strings
  of 24 hexadecimal digits cast to an ObjectId.\<close>

definition sample_mongoose :: mongoose where
  "sample_mongoose =
     \<lparr>checkRequired = (\<lambda>xs. True),
      isObjectId = (\<lambda>v. case v of
                          JStr x \<Rightarrow> length x = 24
                                    \<and> list_all (\<lambda>c. c \<in> set ''0123456789abcdefABCDEF'') x
                        | _ \<Rightarrow> False)\<rparr>"

definition empty_patch :: patch where
  "empty_patch =
     \<lparr>p_url = None, p_name = None, p_description = None, p_events = None, p_isActive = None,
      p_retryCount = None, p_retryBackoffMs = None, p_notifyOnFailure = None,
      p_retryEnabled = None, p_secret = None, p_stats = None, p_username = None,
      p_maxPayloadSize = None\<rparr>"

definition sample_body :: create_body where
  "sample_body =
     \<lparr>b_url = Some ''https://example.test/hook'', b_name = Some ''hook'', b_description = None,
      b_events = None, b_retryCount = None, b_retryBackoffMs = None, b_notifyOnFailure = None\<rparr>"

definition sample_db :: db where
  "sample_db = \<lparr>webhooks = [sample_webhook], webhook_events = [sample_event]\<rparr>"

section \<open>Properties of signatures\<close>

lemma length_hex_digest: "length (hex_digest w) = 64"
  by (simp add: hex_digest_def)

lemma length_generateSignature: "length (generateSignature hmac body key) = 64"
  by (simp add: generateSignature_def length_hex_digest)

text \<open>
  Claim C10. \<open>verifySignature\<close> returns a boolean exactly when the candidate signature
  has the byte length of the expected signature, which is always 64; the boolean is then
  the equality of the two. For a candidate of any other length it throws a RangeError and
  returns nothing.
\<close>

theorem verifySignature_length:
  "verifySignature hmac body sig key =
     (if length sig = 64
      then Inr (sig = generateSignature hmac body key)
      else Inl (RangeError ''Input buffers must have the same byte length''))"
  by (simp add: verifySignature_def timingSafeEqual_def length_generateSignature)

section \<open>What is signed and what is sent\<close>

lemma length_commas3:
  "length (commas [a, b, c]) = length a + length b + length c + 2"
  by simp

lemma signed_payload_longer:
  "length (stringify (payload ev)) < length (signed_payload ts ev)"
  by (simp add: signed_payload_def)

lemma sample_signed_payload:
  \<open>signed_payload ''2024-01-15T10:30:00.000Z'' sample_event
     = ''{"event":"sms.delivered","timestamp":"2024-01-15T10:30:00.000Z","data":{"id":"x1"}}''
   \<and> req_body (sendWebhookEvent_post hmac ''2024-01-15T10:30:00.000Z'' sample_webhook sample_event)
     = ''{"id":"x1"}''\<close>
  by (simp add: signed_payload_def sendWebhookEvent_post_def sample_event_def quote_def
      escape_char_def dquote_def backslash_def)

text \<open>The test probe, in contrast, carries the signature of the body it posts.\<close>

lemma sendTestWebhook_signs_body:
  "x_webhook_signature (sendTestWebhook_post hmac ts now wh)
     = generateSignature hmac (req_body (sendTestWebhook_post hmac ts now wh)) (secret wh)"
  by (simp add: sendTestWebhook_post_def Let_def)

text \<open>
  Claim C1 says that the signature header is the HMAC of the body that is sent. In the
  code the header is the HMAC of the envelope \<open>signed_payload\<close>, the body is the
  serialised event data alone, and the two strings always differ.
\<close>

theorem sendWebhookEvent_signs_envelope:
  "x_webhook_signature (sendWebhookEvent_post hmac ts wh ev)
     = hex_digest (hmac (secret wh) (signed_payload ts ev))
   \<and> req_body (sendWebhookEvent_post hmac ts wh ev) = stringify (payload ev)
   \<and> signed_payload ts ev \<noteq> req_body (sendWebhookEvent_post hmac ts wh ev)"
proof -
  have "length (signed_payload ts ev) \<noteq> length (stringify (payload ev))"
    using signed_payload_longer [of ev ts] by simp
  then have "signed_payload ts ev \<noteq> stringify (payload ev)"
    by auto
  then show ?thesis
    by (simp add: sendWebhookEvent_post_def generateSignature_def)
qed

section \<open>The outcome of one attempt\<close>

lemma findById_update:
  "(\<And>w. wid (f w) = wid w) \<Longrightarrow>
   findById i (findByIdAndUpdate j f ws) =
     (if i = j then map_option f (findById i ws) else findById i ws)"
  by (induction ws) (auto simp: findById_def findByIdAndUpdate_def)

lemma wid_success_stats [simp]: "wid (success_stats now st duration w) = wid w"
  by (simp add: success_stats_def)

lemma wid_failure_stats [simp]: "wid (failure_stats now w) = wid w"
  by (simp add: failure_stats_def)

lemma webhooks_sendWebhookEvent:
  "webhooks (snd (sendWebhookEvent now duration wh ev res d)) =
     findByIdAndUpdate (wid wh)
       (case res of Resolved st \<Rightarrow> success_stats now st duration
                  | Rejected code msg \<Rightarrow> failure_stats now) (webhooks d)"
  by (simp add: sendWebhookEvent_def Let_def)

lemma findById_sendWebhookEvent:
  "findById (wid wh) (webhooks (snd (sendWebhookEvent now duration wh ev res d))) =
     map_option (case res of Resolved st \<Rightarrow> success_stats now st duration
                          | Rejected code msg \<Rightarrow> failure_stats now)
       (findById (wid wh) (webhooks d))"
  by (cases res) (simp_all add: webhooks_sendWebhookEvent findById_update)






section \<open>Retry scheduling\<close>




section \<open>A delivery that fails twice and then succeeds\<close>





section \<open>Tenant isolation of the admin routes\<close>

lemma not_found_unauthorized: "\<not> str_includes (unauthorized op) ''not found''"
  by (cases op) simp_all

lemma getWebhookById_foreign:
  "findById i (webhooks d) = Some w \<Longrightarrow> username w \<noteq> user \<Longrightarrow>
   getWebhookById i user d
     = Inl (Error ''Failed to get webhook: Unauthorized: Cannot access this webhook'')"
  by (simp add: getWebhookById_def)

text \<open>
  Claim C7. For every admin operation on one subscription (get, update, delete,
  rotate-secret, test, events, stats) a caller who is not the owner of the stored
  subscription gets the response 403 whose body is a failure with a message that is a
  constant of the operation; no request is sent on the caller's behalf and the
  collections are unchanged. The response is the same whatever the subscription holds,
  so the caller observes none of its fields.
\<close>

theorem tenant_isolation:
  assumes "findById i (webhooks d) = Some w" and "username w \<noteq> user"
  shows "admin m hmac now user i op d = (Response 403 (failure (unauthorized op)), [], d)"
proof (cases op)
  case Get
  then show ?thesis
    using assms not_found_unauthorized [of Get]
    by (simp add: get_webhook_def getWebhookById_foreign error_response_def)
next
  case (Update body)
  then show ?thesis
    using assms not_found_unauthorized [of "Update body"]
    by (simp add: put_webhook_def updateWebhook_def error_response_def)
next
  case Delete
  then show ?thesis
    using assms not_found_unauthorized [of Delete]
    by (simp add: delete_webhook_def deleteWebhook_def error_response_def)
next
  case (RotateSecret rnd)
  then show ?thesis
    using assms not_found_unauthorized [of "RotateSecret rnd"]
    by (simp add: post_rotate_secret_def rotateSecret_def error_response_def)
next
  case (Test ts duration res)
  then show ?thesis
    using assms not_found_unauthorized [of "Test ts duration res"]
    by (simp add: post_test_def sendTestWebhook_def getWebhookById_foreign error_response_def)
next
  case (Events f)
  then show ?thesis
    using assms not_found_unauthorized [of "Events f"]
    by (simp add: get_events_def getWebhookById_foreign error_response_def)
next
  case Stats
  then show ?thesis
    using assms not_found_unauthorized [of Stats]
    by (simp add: get_stats_def getWebhookById_foreign error_response_def)
qed

theorem tenant_isolation_witness:
  "findById ''w1'' (webhooks sample_db) = Some sample_webhook
   \<and> username sample_webhook \<noteq> ''bob''
   \<and> admin sample_mongoose (\<lambda>k msg. 0) 5 ''bob'' ''w1'' Get sample_db
       = (Response 403 (failure ''Failed to get webhook: Unauthorized: Cannot access this webhook''),
          [], sample_db)
   \<and> admin sample_mongoose (\<lambda>k msg. 0) 5 ''bob'' ''w1'' Stats sample_db
       = (Response 403 (failure ''Failed to get webhook: Unauthorized: Cannot access this webhook''),
          [], sample_db)"
proof -
  have h: "findById ''w1'' (webhooks sample_db) = Some sample_webhook"
    "username sample_webhook \<noteq> ''bob''"
    by (simp_all add: sample_db_def findById_def sample_webhook_def)
  show ?thesis
    using h tenant_isolation [OF h, of sample_mongoose "\<lambda>k msg. 0" 5 Get]
      tenant_isolation [OF h, of sample_mongoose "\<lambda>k msg. 0" 5 Stats]
    by simp
qed

section \<open>Update\<close>

lemma findById_replace:
  "wid w' = i \<Longrightarrow>
   findById j (findByIdAndUpdate i (\<lambda>x. w') ws) =
     (if j = i then map_option (\<lambda>x. w') (findById i ws) else findById j ws)"
  by (induction ws) (auto simp: findById_def findByIdAndUpdate_def)

lemma findById_Some_wid: "findById i ws = Some w \<Longrightarrow> wid w = i"
  by (induction ws) (auto simp: findById_def split: if_splits)

lemma frame_fold_assign:
  "secret (fold (assign u) allowedFields w) = secret w"
  "stats (fold (assign u) allowedFields w) = stats w"
  "retryEnabled (fold (assign u) allowedFields w) = retryEnabled w"
  "username (fold (assign u) allowedFields w) = username w"
  "wid (fold (assign u) allowedFields w) = wid w"
  "maxPayloadSize (fold (assign u) allowedFields w) = maxPayloadSize w"
  "created_at (fold (assign u) allowedFields w) = created_at w"
  by (simp_all add: allowedFields_def assign_def split: option.split)

lemma patched_fold_assign:
  "url (fold (assign u) allowedFields w) = (case p_url u of None \<Rightarrow> url w | Some v \<Rightarrow> v)"
  "name (fold (assign u) allowedFields w) = (case p_name u of None \<Rightarrow> name w | Some v \<Rightarrow> v)"
  "description (fold (assign u) allowedFields w)
     = (case p_description u of None \<Rightarrow> description w | Some v \<Rightarrow> Some v)"
  "events (fold (assign u) allowedFields w) = (case p_events u of None \<Rightarrow> events w | Some v \<Rightarrow> v)"
  "isActive (fold (assign u) allowedFields w)
     = (case p_isActive u of None \<Rightarrow> isActive w | Some v \<Rightarrow> v)"
  "retryCount (fold (assign u) allowedFields w)
     = (case p_retryCount u of None \<Rightarrow> retryCount w | Some v \<Rightarrow> v)"
  "retryBackoffMs (fold (assign u) allowedFields w)
     = (case p_retryBackoffMs u of None \<Rightarrow> retryBackoffMs w | Some v \<Rightarrow> v)"
  "notifyOnFailure (fold (assign u) allowedFields w)
     = (case p_notifyOnFailure u of None \<Rightarrow> notifyOnFailure w | Some v \<Rightarrow> v)"
  by (simp_all add: allowedFields_def assign_def split: option.split)

lemma updateWebhook_Inr:
  assumes "updateWebhook m now i user u d = Inr (w', d')"
  shows "\<exists>w. findById i (webhooks d) = Some w \<and> username w = user
            \<and> w' = updated_webhook now user u w
            \<and> validate_webhook m w' = None
            \<and> d' = d\<lparr>webhooks := findByIdAndUpdate (wid w') (\<lambda>x. w') (webhooks d)\<rparr>"
  using assms
  by (auto simp: updateWebhook_def save_webhook_def Let_def
      split: option.splits if_splits sum.splits)

text \<open>
  Claim C9, as the code has it. A successful update changes, of the stored subscription,
  only \<open>url\<close>, \<open>name\<close>, \<open>description\<close>, \<open>events\<close>, \<open>isActive\<close>, \<open>retryCount\<close>,
  \<open>retryBackoffMs\<close> and \<open>notifyOnFailure\<close>, each to the value in the patch when the
  patch has one, and sets \<open>updated_at\<close> to the time of the update and \<open>lastUpdatedBy\<close>
  to the caller. The secret, the statistics, \<open>retryEnabled\<close>, the owner, the id, the
  payload limit and the creation time are unchanged whatever the patch contains; so are
  all other subscriptions and all events.
\<close>

theorem updateWebhook_frame:
  assumes "updateWebhook m now i user u d = Inr (w', d')"
    and "findById i (webhooks d) = Some w"
  shows "secret w' = secret w \<and> stats w' = stats w \<and> retryEnabled w' = retryEnabled w
    \<and> username w' = username w \<and> wid w' = wid w \<and> maxPayloadSize w' = maxPayloadSize w
    \<and> created_at w' = created_at w
    \<and> updated_at w' = now \<and> lastUpdatedBy w' = Some user
    \<and> url w' = (case p_url u of None \<Rightarrow> url w | Some v \<Rightarrow> v)
    \<and> name w' = (case p_name u of None \<Rightarrow> name w | Some v \<Rightarrow> v)
    \<and> description w' = (case p_description u of None \<Rightarrow> description w | Some v \<Rightarrow> Some v)
    \<and> events w' = (case p_events u of None \<Rightarrow> events w | Some v \<Rightarrow> v)
    \<and> isActive w' = (case p_isActive u of None \<Rightarrow> isActive w | Some v \<Rightarrow> v)
    \<and> retryCount w' = (case p_retryCount u of None \<Rightarrow> retryCount w | Some v \<Rightarrow> v)
    \<and> retryBackoffMs w' = (case p_retryBackoffMs u of None \<Rightarrow> retryBackoffMs w | Some v \<Rightarrow> v)
    \<and> notifyOnFailure w' = (case p_notifyOnFailure u of None \<Rightarrow> notifyOnFailure w | Some v \<Rightarrow> v)
    \<and> findById i (webhooks d') = Some w'
    \<and> (\<forall>j. j \<noteq> i \<longrightarrow> findById j (webhooks d') = findById j (webhooks d))
    \<and> webhook_events d' = webhook_events d"
proof -
  from updateWebhook_Inr [OF assms(1)] assms(2)
  have w': "w' = updated_webhook now user u w"
    and d': "d' = d\<lparr>webhooks := findByIdAndUpdate (wid w') (\<lambda>x. w') (webhooks d)\<rparr>"
    by auto
  have i: "wid w = i"
    using assms(2) by (rule findById_Some_wid)
  have wid: "wid w' = i"
    by (simp add: w' updated_webhook_def frame_fold_assign i)
  have fields: "secret w' = secret w \<and> stats w' = stats w \<and> retryEnabled w' = retryEnabled w
    \<and> username w' = username w \<and> wid w' = wid w \<and> maxPayloadSize w' = maxPayloadSize w
    \<and> created_at w' = created_at w \<and> updated_at w' = now \<and> lastUpdatedBy w' = Some user"
    by (simp add: w' updated_webhook_def frame_fold_assign)
  have patched: "url w' = (case p_url u of None \<Rightarrow> url w | Some v \<Rightarrow> v)
    \<and> name w' = (case p_name u of None \<Rightarrow> name w | Some v \<Rightarrow> v)
    \<and> description w' = (case p_description u of None \<Rightarrow> description w | Some v \<Rightarrow> Some v)
    \<and> events w' = (case p_events u of None \<Rightarrow> events w | Some v \<Rightarrow> v)
    \<and> isActive w' = (case p_isActive u of None \<Rightarrow> isActive w | Some v \<Rightarrow> v)
    \<and> retryCount w' = (case p_retryCount u of None \<Rightarrow> retryCount w | Some v \<Rightarrow> v)
    \<and> retryBackoffMs w' = (case p_retryBackoffMs u of None \<Rightarrow> retryBackoffMs w | Some v \<Rightarrow> v)
    \<and> notifyOnFailure w' = (case p_notifyOnFailure u of None \<Rightarrow> notifyOnFailure w | Some v \<Rightarrow> v)"
    by (simp add: w' updated_webhook_def patched_fold_assign)
  have stored: "findById i (webhooks d') = Some w'"
    using assms(2) by (simp add: d' wid findById_replace)
  have others: "\<forall>j. j \<noteq> i \<longrightarrow> findById j (webhooks d') = findById j (webhooks d)"
    by (simp add: d' wid findById_replace)
  have evs: "webhook_events d' = webhook_events d"
    by (simp add: d')
  show ?thesis
    using fields patched stored others evs by blast
qed

lemma sample_update:
  "updateWebhook sample_mongoose 5 ''w1'' ''alice''
     (empty_patch\<lparr>p_name := Some ''renamed'', p_secret := Some ''chosen'',
                   p_stats := Some (new_stats\<lparr>totalCalls := 7\<rparr>)\<rparr>) sample_db
   = Inr (sample_webhook\<lparr>name := ''renamed'', updated_at := 5, lastUpdatedBy := Some ''alice''\<rparr>,
          \<lparr>webhooks = [sample_webhook\<lparr>name := ''renamed'', updated_at := 5,
                                       lastUpdatedBy := Some ''alice''\<rparr>],
           webhook_events = [sample_event]\<rparr>)"
  by (simp add: updateWebhook_def sample_db_def findById_def sample_webhook_def
      updated_webhook_def allowedFields_def assign_def empty_patch_def save_webhook_def
      validate_webhook_def url_validator_def starts_with_line_terminator_def
      sample_mongoose_def allowed_events_def findByIdAndUpdate_def Let_def)

theorem updateWebhook_frame_witness:
  "updateWebhook sample_mongoose 5 ''w1'' ''alice''
     (empty_patch\<lparr>p_name := Some ''renamed'', p_secret := Some ''chosen'',
                   p_stats := Some (new_stats\<lparr>totalCalls := 7\<rparr>)\<rparr>) sample_db
   = Inr (sample_webhook\<lparr>name := ''renamed'', updated_at := 5, lastUpdatedBy := Some ''alice''\<rparr>,
          \<lparr>webhooks = [sample_webhook\<lparr>name := ''renamed'', updated_at := 5,
                                       lastUpdatedBy := Some ''alice''\<rparr>],
           webhook_events = [sample_event]\<rparr>)
   \<and> findById ''w1'' (webhooks sample_db) = Some sample_webhook
   \<and> secret (sample_webhook\<lparr>name := ''renamed'', updated_at := 5, lastUpdatedBy := Some ''alice''\<rparr>)
       = secret sample_webhook
   \<and> stats (sample_webhook\<lparr>name := ''renamed'', updated_at := 5, lastUpdatedBy := Some ''alice''\<rparr>)
       = stats sample_webhook"
proof -
  have h: "findById ''w1'' (webhooks sample_db) = Some sample_webhook"
    by (simp add: sample_db_def findById_def sample_webhook_def)
  show ?thesis
    using sample_update h updateWebhook_frame [OF sample_update h]
    by simp
qed

text \<open>
  Claim C9 lists \<open>retry_enabled\<close> among the fields that an update modifies and no field
  for the caller. In the code a patch of \<open>retryEnabled\<close> is ignored: the subscription
  keeps \<open>retryEnabled = True\<close>; and the update writes \<open>lastUpdatedBy\<close>, which is not in
  the list.
\<close>

theorem update_retryEnabled_ignored:
  "(case updateWebhook sample_mongoose 5 ''w1'' ''alice''
           (empty_patch\<lparr>p_retryEnabled := Some False\<rparr>) sample_db of
      Inl e \<Rightarrow> None
    | Inr (w, d) \<Rightarrow> Some (retryEnabled w, lastUpdatedBy w))
   = Some (True, Some ''alice'')
   \<and> retryEnabled sample_webhook = True \<and> lastUpdatedBy sample_webhook = None"
  by (simp add: updateWebhook_def sample_db_def findById_def sample_webhook_def
      updated_webhook_def allowedFields_def assign_def empty_patch_def save_webhook_def
      validate_webhook_def url_validator_def starts_with_line_terminator_def
      sample_mongoose_def allowed_events_def findByIdAndUpdate_def Let_def)

section \<open>Create\<close>

lemma length_generateSecret: "length (generateSecret rnd) = 32"
  by (simp add: generateSecret_def)

lemma generateSecret_nonempty [simp]: "generateSecret rnd \<noteq> []"
  using length_generateSecret [of rnd] by auto

lemma findById_append_new:
  "findById i ws = None \<Longrightarrow> wid w = i \<Longrightarrow> findById i (ws @ [w]) = Some w"
  by (induction ws) (auto simp: findById_def split: if_splits)

lemma validate_webhook_None:
  "validate_webhook m w = None \<Longrightarrow>
     url_validator (url w) \<and> list_all (\<lambda>e. e \<in> set allowed_events) (events w)
     \<and> 1 \<le> retryCount w \<and> retryCount w \<le> 10
     \<and> 1000 \<le> retryBackoffMs w \<and> retryBackoffMs w \<le> 3600000"
  by (simp add: validate_webhook_def split: if_splits)

lemma createWebhook_Inr:
  assumes "createWebhook m now new_id rnd user data d = Inr (w, d')"
  shows "validate_webhook m w = None \<and> findById new_id (webhooks d) = None
    \<and> d' = d\<lparr>webhooks := webhooks d @ [w]\<rparr>
    \<and> wid w = new_id \<and> username w = user \<and> secret w = generateSecret rnd
    \<and> totalCalls (stats w) = 0 \<and> successfulCalls (stats w) = 0 \<and> failedCalls (stats w) = 0"
  using assms
  by (auto simp: createWebhook_def insert_webhook_def Let_def
      split: option.splits if_splits sum.splits)

lemma post_webhooks_400:
  assumes "\<not> present (b_url body) \<or> \<not> present (b_name body)
     \<or> (b_url body = Some u \<and> \<not> prefix ''https://'' u \<and> \<not> prefix ''http://'' u)"
  shows "status_code (fst (post_webhooks m now new_id rnd user body d)) = 400
    \<and> snd (post_webhooks m now new_id rnd user body d) = d"
  using assms by (auto simp: post_webhooks_def)

lemma createWebhook_invalid:
  assumes "b_url body = Some u" and "b_name body = Some n"
    and "\<not> url_validator u
       \<or> (b_events body = Some es \<and> \<not> list_all (\<lambda>e. e \<in> set allowed_events) es)
       \<or> (b_retryCount body = Some c \<and> (c < 0 \<or> 10 < c))
       \<or> (b_retryBackoffMs body = Some k \<and> (k < 0 \<or> (0 < k \<and> k < 1000) \<or> 3600000 < k))"
  shows "\<exists>e. createWebhook m now new_id rnd user body d = Inl e"
  using assms
  by (auto simp: createWebhook_def insert_webhook_def validate_webhook_def or_number_def Let_def
      split: option.splits sum.splits)

lemma post_webhooks_500:
  assumes "b_url body = Some u" and "b_name body = Some n" and "n \<noteq> []"
    and "prefix ''https://'' u \<or> prefix ''http://'' u"
    and "\<not> url_validator u
       \<or> (b_events body = Some es \<and> \<not> list_all (\<lambda>e. e \<in> set allowed_events) es)
       \<or> (b_retryCount body = Some c \<and> (c < 0 \<or> 10 < c))
       \<or> (b_retryBackoffMs body = Some k \<and> (k < 0 \<or> (0 < k \<and> k < 1000) \<or> 3600000 < k))"
  shows "status_code (fst (post_webhooks m now new_id rnd user body d)) = 500
    \<and> snd (post_webhooks m now new_id rnd user body d) = d"
proof -
  obtain e where "createWebhook m now new_id rnd user body d = Inl e"
    using createWebhook_invalid [OF assms(1,2,5)] by blast
  moreover have "u \<noteq> []"
    using assms(4) by auto
  ultimately show ?thesis
    using assms(1-4) by (auto simp: post_webhooks_def present_def)
qed

lemma post_webhooks_201:
  assumes "status_code (fst (post_webhooks m now new_id rnd user body d)) = 201"
  shows "\<exists>w. createWebhook m now new_id rnd user body d
               = Inr (w, snd (post_webhooks m now new_id rnd user body d))"
  using assms
  by (auto simp: post_webhooks_def split: if_splits sum.splits prod.splits)

lemma post_webhooks_400_only:
  assumes "status_code (fst (post_webhooks m now new_id rnd user body d)) = 400"
  shows "\<not> present (b_url body) \<or> \<not> present (b_name body)
     \<or> (\<not> prefix ''https://'' (case b_url body of None \<Rightarrow> [] | Some u \<Rightarrow> u)
        \<and> \<not> prefix ''http://'' (case b_url body of None \<Rightarrow> [] | Some u \<Rightarrow> u))"
  using assms
  by (auto simp: post_webhooks_def split: if_splits sum.splits prod.splits)

lemma url_validator_prefix:
  "url_validator u \<Longrightarrow> (prefix ''https://'' u \<or> prefix ''http://'' u) \<and> u \<noteq> []"
  by (auto simp: url_validator_def Let_def split: if_splits)

lemma createWebhook_valid:
  assumes "b_url body = Some u" and "b_name body = Some n" and "n \<noteq> []" and "user \<noteq> []"
    and "url_validator u"
    and "checkRequired m (case b_events body of
                            None \<Rightarrow> [''sms.delivered'', ''sms.failed''] | Some es \<Rightarrow> es)"
    and "list_all (\<lambda>e. e \<in> set allowed_events)
           (case b_events body of None \<Rightarrow> [''sms.delivered'', ''sms.failed''] | Some es \<Rightarrow> es)"
    and "b_retryCount body = None \<or> (b_retryCount body = Some c \<and> 1 \<le> c \<and> c \<le> 10)"
    and "b_retryBackoffMs body = None
         \<or> (b_retryBackoffMs body = Some k \<and> 1000 \<le> k \<and> k \<le> 3600000)"
    and "findById new_id (webhooks d) = None"
  shows "\<exists>w d'. createWebhook m now new_id rnd user body d = Inr (w, d')"
proof -
  have u: "u \<noteq> []"
    using assms(5) url_validator_prefix by blast
  have rc: "1 \<le> or_number (b_retryCount body) 3 \<and> or_number (b_retryCount body) 3 \<le> 10"
    using assms(8) by (auto simp: or_number_def)
  have rb: "1000 \<le> or_number (b_retryBackoffMs body) 5000
            \<and> or_number (b_retryBackoffMs body) 5000 \<le> 3600000"
    using assms(9) by (auto simp: or_number_def)
  show ?thesis
    using assms(1-7,10) u rc rb
    by (simp add: createWebhook_def insert_webhook_def validate_webhook_def Let_def)
qed

lemma post_webhooks_valid:
  assumes "b_url body = Some u" and "b_name body = Some n" and "n \<noteq> []" and "user \<noteq> []"
    and "url_validator u"
    and "checkRequired m (case b_events body of
                            None \<Rightarrow> [''sms.delivered'', ''sms.failed''] | Some es \<Rightarrow> es)"
    and "list_all (\<lambda>e. e \<in> set allowed_events)
           (case b_events body of None \<Rightarrow> [''sms.delivered'', ''sms.failed''] | Some es \<Rightarrow> es)"
    and "b_retryCount body = None \<or> (b_retryCount body = Some c \<and> 1 \<le> c \<and> c \<le> 10)"
    and "b_retryBackoffMs body = None
         \<or> (b_retryBackoffMs body = Some k \<and> 1000 \<le> k \<and> k \<le> 3600000)"
    and "findById new_id (webhooks d) = None"
  shows "status_code (fst (post_webhooks m now new_id rnd user body d)) = 201"
proof -
  obtain w d' where "createWebhook m now new_id rnd user body d = Inr (w, d')"
    using createWebhook_valid [OF assms] by blast
  moreover have "(prefix ''https://'' u \<or> prefix ''http://'' u) \<and> u \<noteq> []"
    using assms(5) by (rule url_validator_prefix)
  ultimately show ?thesis
    using assms(1-3) by (auto simp: post_webhooks_def present_def)
qed

text \<open>
  Claim C8, as the code has it. The route answers 400 exactly when the url or the name
  is missing or empty or the url starts with neither \<^verbatim>\<open>http://\<close> nor
  \<^verbatim>\<open>https://\<close>, and then stores nothing. A request that passes these checks and has
  nothing after the scheme of the url, an event outside the five defined ones, a
  \<open>retryCount\<close> below 0 or above 10, or a \<open>retryBackoffMs\<close> below 0, between 1 and 999
  or above 3600000 fails in the validation of the schema and is answered 500, and
  nothing is stored. A request of a user under a new id whose url matches the pattern of
  the schema, whose events, given or by default, are among the five defined ones and
  pass \<^verbatim>\<open>required\<close>, and whose \<open>retryCount\<close> and \<open>retryBackoffMs\<close> are absent or
  within their ranges, is answered 201. Whenever the answer is 201, the stored
  subscription satisfies the constraints of the schema, belongs to the caller, and its
  secret is the 32 hexadecimal digits of the 16 random bytes.
\<close>

theorem post_webhooks_validation:
  "(\<not> present (b_url body) \<or> \<not> present (b_name body)
      \<or> (b_url body = Some u \<and> \<not> prefix ''https://'' u \<and> \<not> prefix ''http://'' u)
    \<longrightarrow> status_code (fst (post_webhooks m now new_id rnd user body d)) = 400
        \<and> snd (post_webhooks m now new_id rnd user body d) = d)
   \<and> (status_code (fst (post_webhooks m now new_id rnd user body d)) = 400
    \<longrightarrow> \<not> present (b_url body) \<or> \<not> present (b_name body)
        \<or> (\<not> prefix ''https://'' (case b_url body of None \<Rightarrow> [] | Some x \<Rightarrow> x)
           \<and> \<not> prefix ''http://'' (case b_url body of None \<Rightarrow> [] | Some x \<Rightarrow> x)))
   \<and> (b_url body = Some u \<and> b_name body = Some n \<and> n \<noteq> []
      \<and> (prefix ''https://'' u \<or> prefix ''http://'' u)
      \<and> (\<not> url_validator u
         \<or> (b_events body = Some es \<and> \<not> list_all (\<lambda>e. e \<in> set allowed_events) es)
         \<or> (b_retryCount body = Some c \<and> (c < 0 \<or> 10 < c))
         \<or> (b_retryBackoffMs body = Some k \<and> (k < 0 \<or> (0 < k \<and> k < 1000) \<or> 3600000 < k)))
    \<longrightarrow> status_code (fst (post_webhooks m now new_id rnd user body d)) = 500
        \<and> snd (post_webhooks m now new_id rnd user body d) = d)
   \<and> (b_url body = Some u \<and> b_name body = Some n \<and> n \<noteq> [] \<and> user \<noteq> []
      \<and> url_validator u
      \<and> checkRequired m (case b_events body of
                            None \<Rightarrow> [''sms.delivered'', ''sms.failed''] | Some x \<Rightarrow> x)
      \<and> list_all (\<lambda>e. e \<in> set allowed_events)
           (case b_events body of None \<Rightarrow> [''sms.delivered'', ''sms.failed''] | Some x \<Rightarrow> x)
      \<and> (b_retryCount body = None \<or> (b_retryCount body = Some c \<and> 1 \<le> c \<and> c \<le> 10))
      \<and> (b_retryBackoffMs body = None
         \<or> (b_retryBackoffMs body = Some k \<and> 1000 \<le> k \<and> k \<le> 3600000))
      \<and> findById new_id (webhooks d) = None
    \<longrightarrow> status_code (fst (post_webhooks m now new_id rnd user body d)) = 201)
   \<and> (status_code (fst (post_webhooks m now new_id rnd user body d)) = 201
    \<longrightarrow> (\<exists>w. findById new_id (webhooks (snd (post_webhooks m now new_id rnd user body d))) = Some w
          \<and> username w = user
          \<and> url_validator (url w)
          \<and> list_all (\<lambda>e. e \<in> set allowed_events) (events w)
          \<and> 1 \<le> retryCount w \<and> retryCount w \<le> 10
          \<and> 1000 \<le> retryBackoffMs w \<and> retryBackoffMs w \<le> 3600000
          \<and> secret w = generateSecret rnd \<and> length (secret w) = 32))"
proof -
  have p400: "status_code (fst (post_webhooks m now new_id rnd user body d)) = 400
        \<and> snd (post_webhooks m now new_id rnd user body d) = d"
    if "\<not> present (b_url body) \<or> \<not> present (b_name body)
      \<or> (b_url body = Some u \<and> \<not> prefix ''https://'' u \<and> \<not> prefix ''http://'' u)"
    using that by (rule post_webhooks_400)
  have only: "\<not> present (b_url body) \<or> \<not> present (b_name body)
        \<or> (\<not> prefix ''https://'' (case b_url body of None \<Rightarrow> [] | Some x \<Rightarrow> x)
           \<and> \<not> prefix ''http://'' (case b_url body of None \<Rightarrow> [] | Some x \<Rightarrow> x))"
    if "status_code (fst (post_webhooks m now new_id rnd user body d)) = 400"
    using that by (rule post_webhooks_400_only)
  have p500: "status_code (fst (post_webhooks m now new_id rnd user body d)) = 500
        \<and> snd (post_webhooks m now new_id rnd user body d) = d"
    if "b_url body = Some u \<and> b_name body = Some n \<and> n \<noteq> []
      \<and> (prefix ''https://'' u \<or> prefix ''http://'' u)
      \<and> (\<not> url_validator u
         \<or> (b_events body = Some es \<and> \<not> list_all (\<lambda>e. e \<in> set allowed_events) es)
         \<or> (b_retryCount body = Some c \<and> (c < 0 \<or> 10 < c))
         \<or> (b_retryBackoffMs body = Some k \<and> (k < 0 \<or> (0 < k \<and> k < 1000) \<or> 3600000 < k)))"
    using that post_webhooks_500 [of body u n es c k m now new_id rnd user d] by blast
  have p201: "status_code (fst (post_webhooks m now new_id rnd user body d)) = 201"
    if "b_url body = Some u \<and> b_name body = Some n \<and> n \<noteq> [] \<and> user \<noteq> []
      \<and> url_validator u
      \<and> checkRequired m (case b_events body of
                            None \<Rightarrow> [''sms.delivered'', ''sms.failed''] | Some x \<Rightarrow> x)
      \<and> list_all (\<lambda>e. e \<in> set allowed_events)
           (case b_events body of None \<Rightarrow> [''sms.delivered'', ''sms.failed''] | Some x \<Rightarrow> x)
      \<and> (b_retryCount body = None \<or> (b_retryCount body = Some c \<and> 1 \<le> c \<and> c \<le> 10))
      \<and> (b_retryBackoffMs body = None
         \<or> (b_retryBackoffMs body = Some k \<and> 1000 \<le> k \<and> k \<le> 3600000))
      \<and> findById new_id (webhooks d) = None"
    using that post_webhooks_valid [of body u n user m c k new_id d now rnd] by blast
  have stored: "\<exists>w. findById new_id (webhooks (snd (post_webhooks m now new_id rnd user body d))) = Some w
          \<and> username w = user
          \<and> url_validator (url w)
          \<and> list_all (\<lambda>e. e \<in> set allowed_events) (events w)
          \<and> 1 \<le> retryCount w \<and> retryCount w \<le> 10
          \<and> 1000 \<le> retryBackoffMs w \<and> retryBackoffMs w \<le> 3600000
          \<and> secret w = generateSecret rnd \<and> length (secret w) = 32"
    if created: "status_code (fst (post_webhooks m now new_id rnd user body d)) = 201"
  proof -
    obtain w where c: "createWebhook m now new_id rnd user body d
        = Inr (w, snd (post_webhooks m now new_id rnd user body d))"
      using created post_webhooks_201 by blast
    note r = createWebhook_Inr [OF c]
    have "findById new_id (webhooks (snd (post_webhooks m now new_id rnd user body d))) = Some w"
      using r by (simp add: findById_append_new)
    then show ?thesis
      using r validate_webhook_None [of m w] by (auto simp: length_generateSecret)
  qed
  show ?thesis
    using p400 only p500 p201 stored by blast
qed

theorem post_webhooks_validation_witness:
  "\<not> present (b_url (sample_body\<lparr>b_url := None\<rparr>))
   \<and> status_code (fst (post_webhooks sample_mongoose 5 ''w2'' 0 ''alice''
                         (sample_body\<lparr>b_url := None\<rparr>) sample_db)) = 400
   \<and> b_retryCount (sample_body\<lparr>b_retryCount := Some 11\<rparr>) = Some 11
   \<and> status_code (fst (post_webhooks sample_mongoose 5 ''w2'' 0 ''alice''
                         (sample_body\<lparr>b_retryCount := Some 11\<rparr>) sample_db)) = 500
   \<and> url_validator ''https://example.test/hook''
   \<and> findById ''w2'' (webhooks sample_db) = None
   \<and> status_code (fst (post_webhooks sample_mongoose 5 ''w2'' 0 ''alice'' sample_body sample_db))
       = 201
   \<and> (\<exists>w. findById ''w2'' (webhooks (snd (post_webhooks sample_mongoose 5 ''w2'' 0 ''alice''
                                              sample_body sample_db))) = Some w
          \<and> username w = ''alice'' \<and> secret w = generateSecret 0 \<and> length (secret w) = 32)"
proof -
  have a: "\<not> present (b_url (sample_body\<lparr>b_url := None\<rparr>))"
    by (simp add: present_def)
  have b: "b_url (sample_body\<lparr>b_retryCount := Some 11\<rparr>) = Some ''https://example.test/hook''"
    "b_name (sample_body\<lparr>b_retryCount := Some 11\<rparr>) = Some ''hook''"
    "b_retryCount (sample_body\<lparr>b_retryCount := Some 11\<rparr>) = Some 11"
    by (simp_all add: sample_body_def)
  have v: "b_url sample_body = Some ''https://example.test/hook''"
    "b_name sample_body = Some ''hook''" "b_events sample_body = None"
    "b_retryCount sample_body = None" "b_retryBackoffMs sample_body = None"
    "url_validator ''https://example.test/hook''"
    "checkRequired sample_mongoose [''sms.delivered'', ''sms.failed'']"
    "list_all (\<lambda>e. e \<in> set allowed_events) [''sms.delivered'', ''sms.failed'']"
    "findById ''w2'' (webhooks sample_db) = None"
    by (simp_all add: sample_body_def url_validator_def starts_with_line_terminator_def
        sample_mongoose_def allowed_events_def sample_db_def findById_def sample_webhook_def)
  have c: "status_code (fst (post_webhooks sample_mongoose 5 ''w2'' 0 ''alice'' sample_body
                               sample_db)) = 201"
    using v
      post_webhooks_validation [of sample_body "''https://example.test/hook''" sample_mongoose 5
        "''w2''" 0 "''alice''" sample_db "''hook''" "[]" 0 0]
    by simp
  show ?thesis
    using a b c v(6,9)
      post_webhooks_validation [of "sample_body\<lparr>b_url := None\<rparr>" "[]" sample_mongoose 5
        "''w2''" 0 "''alice''" sample_db "[]" "[]" 0 0]
      post_webhooks_validation [of "sample_body\<lparr>b_retryCount := Some 11\<rparr>"
        "''https://example.test/hook''" sample_mongoose 5 "''w2''" 0 "''alice''" sample_db
        "''hook''" "[]" 11 0]
      post_webhooks_validation [of sample_body "''https://example.test/hook''" sample_mongoose 5
        "''w2''" 0 "''alice''" sample_db "''hook''" "[]" 0 0]
    by auto
qed

text \<open>
  Claim C8 says that every violation of a constraint fails with a validation error
  answered 400. A request with \<open>retryCount = 11\<close> is answered 500, and a request with
  \<open>retryCount = 0\<close> is accepted.
\<close>

theorem create_invalid_not_400:
  "status_code (fst (post_webhooks sample_mongoose 5 ''w2'' 0 ''alice''
                       (sample_body\<lparr>b_retryCount := Some 11\<rparr>) sample_db)) = 500
   \<and> status_code (fst (post_webhooks sample_mongoose 5 ''w2'' 0 ''alice''
                       (sample_body\<lparr>b_retryCount := Some 0\<rparr>) sample_db)) = 201"
  by (simp add: post_webhooks_def present_def sample_body_def createWebhook_def
      insert_webhook_def validate_webhook_def url_validator_def
      starts_with_line_terminator_def sample_mongoose_def allowed_events_def or_number_def
      sample_db_def findById_def sample_webhook_def Let_def)

section \<open>The rows that triggerEvent persists\<close>

lemma queueWebhookEvent_cases:
  "queueWebhookEvent m now i w et data d = (None, d)
   \<or> (\<exists>ev. queueWebhookEvent m now i w et data d
              = (Some ev, d\<lparr>webhook_events := webhook_events d @ [ev]\<rparr>)
          \<and> queued et data (w, ev))"
  by (auto simp: queueWebhookEvent_def queueWebhookEvent_try_def queued_def Let_def
      split: sum.splits option.splits)

lemma queueWebhookEvent_saved:
  assumes "logId_of data = Inr l" and "case l of None \<Rightarrow> True | Some v \<Rightarrow> isObjectId m v"
    and "list_ex (\<lambda>a. a = et) allowed_events" and "1 \<le> retryCount w"
  shows "\<exists>ev. queueWebhookEvent m now i w et data d
              = (Some ev, d\<lparr>webhook_events := webhook_events d @ [ev]\<rparr>)"
  using assms
  by (auto simp: queueWebhookEvent_def queueWebhookEvent_try_def validate_event_def Let_def
      split: sum.splits option.splits)

lemma queue_all_rows:
  "webhook_events (snd (queue_all m now gen k et data ws d))
     = webhook_events d @ map snd (fst (queue_all m now gen k et data ws d))
   \<and> webhooks (snd (queue_all m now gen k et data ws d)) = webhooks d
   \<and> list_all (queued et data) (fst (queue_all m now gen k et data ws d))
   \<and> length (fst (queue_all m now gen k et data ws d)) \<le> length ws"
proof (induction ws arbitrary: d k)
  case Nil
  then show ?case by simp
next
  case (Cons w ws)
  from queueWebhookEvent_cases [of m now "gen k" w et data d]
  show ?case
  proof
    assume n: "queueWebhookEvent m now (gen k) w et data d = (None, d)"
    show ?thesis
      using Cons.IH [where d = d and k = k] by (simp add: n)
  next
    assume "\<exists>ev. queueWebhookEvent m now (gen k) w et data d
                   = (Some ev, d\<lparr>webhook_events := webhook_events d @ [ev]\<rparr>)
               \<and> queued et data (w, ev)"
    then obtain ev where s: "queueWebhookEvent m now (gen k) w et data d
                   = (Some ev, d\<lparr>webhook_events := webhook_events d @ [ev]\<rparr>)"
      and q: "queued et data (w, ev)"
      by blast
    show ?thesis
      using Cons.IH [where d = "d\<lparr>webhook_events := webhook_events d @ [ev]\<rparr>" and k = "Suc k"] q
      by (simp add: s case_prod_beta)
  qed
qed

lemma queue_all_complete:
  assumes "logId_of data = Inr l" and "case l of None \<Rightarrow> True | Some v \<Rightarrow> isObjectId m v"
    and "list_ex (\<lambda>a. a = et) allowed_events"
  shows "list_all (\<lambda>w. 1 \<le> retryCount w) ws \<Longrightarrow>
         map fst (fst (queue_all m now gen k et data ws d)) = ws"
proof (induction ws arbitrary: d k)
  case Nil
  then show ?case by simp
next
  case (Cons w ws)
  then have "1 \<le> retryCount w" and rest: "list_all (\<lambda>w. 1 \<le> retryCount w) ws"
    by simp_all
  then obtain ev where s: "queueWebhookEvent m now (gen k) w et data d
                   = (Some ev, d\<lparr>webhook_events := webhook_events d @ [ev]\<rparr>)"
    using queueWebhookEvent_saved [OF assms, of w now "gen k" d] by blast
  show ?case
    using Cons.IH [OF rest, where d = "d\<lparr>webhook_events := webhook_events d @ [ev]\<rparr>" and k = "Suc k"]
    by (simp add: s case_prod_beta)
qed

text \<open>
  Claim C5, as the code has it. Every row that \<open>triggerEvent\<close> persists is persisted
  as a Pending row with no attempts, for one of the N active subscriptions of the user
  that subscribe to the event type, and it is persisted before the call returns; the
  subscriptions are not written. There are at most N new rows, and exactly N, one for
  each of those subscriptions in order, whenever every row passes the validation of the
  event schema: event data that is not \<^verbatim>\<open>null\<close>, with a \<open>logId\<close> that is absent or
  casts to an ObjectId, a defined event type and subscriptions that allow at least one
  attempt. An error while a row is created is caught in \<open>queueWebhookEvent\<close>: the row is
  skipped and nothing is surfaced to the caller.
\<close>

theorem triggerEvent_rows:
  "webhook_events (snd (triggerEvent m now gen user et data d))
     = webhook_events d @ map snd (fst (triggerEvent m now gen user et data d))
   \<and> webhooks (snd (triggerEvent m now gen user et data d)) = webhooks d
   \<and> list_all (queued et data) (fst (triggerEvent m now gen user et data d))
   \<and> length (fst (triggerEvent m now gen user et data d))
       \<le> length (filter (subscribed user et) (webhooks d))
   \<and> (logId_of data = Inr l \<and> (case l of None \<Rightarrow> True | Some v \<Rightarrow> isObjectId m v)
      \<and> list_ex (\<lambda>a. a = et) allowed_events
      \<and> list_all (\<lambda>w. 1 \<le> retryCount w) (filter (subscribed user et) (webhooks d))
      \<longrightarrow> map fst (fst (triggerEvent m now gen user et data d))
            = filter (subscribed user et) (webhooks d)
          \<and> length (map snd (fst (triggerEvent m now gen user et data d)))
            = length (filter (subscribed user et) (webhooks d)))
   \<and> (queueWebhookEvent_try m now i w et data d = Inl e
      \<longrightarrow> queueWebhookEvent m now i w et data d = (None, d))"
proof -
  have a: "webhook_events (snd (triggerEvent m now gen user et data d))
     = webhook_events d @ map snd (fst (triggerEvent m now gen user et data d))
   \<and> webhooks (snd (triggerEvent m now gen user et data d)) = webhooks d
   \<and> list_all (queued et data) (fst (triggerEvent m now gen user et data d))
   \<and> length (fst (triggerEvent m now gen user et data d))
       \<le> length (filter (subscribed user et) (webhooks d))"
    unfolding triggerEvent_def by (rule queue_all_rows)
  have b: "map fst (fst (triggerEvent m now gen user et data d))
            = filter (subscribed user et) (webhooks d)"
    if "logId_of data = Inr l" "case l of None \<Rightarrow> True | Some v \<Rightarrow> isObjectId m v"
      "list_ex (\<lambda>a. a = et) allowed_events"
      "list_all (\<lambda>w. 1 \<le> retryCount w) (filter (subscribed user et) (webhooks d))"
    unfolding triggerEvent_def using that by (rule queue_all_complete)
  have c: "length (map snd (fst (triggerEvent m now gen user et data d)))
            = length (filter (subscribed user et) (webhooks d))"
    if "logId_of data = Inr l" "case l of None \<Rightarrow> True | Some v \<Rightarrow> isObjectId m v"
      "list_ex (\<lambda>a. a = et) allowed_events"
      "list_all (\<lambda>w. 1 \<le> retryCount w) (filter (subscribed user et) (webhooks d))"
    using b [OF that] by (metis length_map)
  have e: "queueWebhookEvent m now i w et data d = (None, d)"
    if "queueWebhookEvent_try m now i w et data d = Inl e"
    using that by (simp add: queueWebhookEvent_def)
  show ?thesis
    using a b c e by blast
qed

text \<open>
  Claim C5 says that exactly N rows are persisted for N matching subscriptions. For
  event data whose \<open>logId\<close> does not cast to an ObjectId the save of the row fails, the
  error is logged, and with one matching subscription no row is persisted.
\<close>

theorem triggerEvent_drops_row:
  "filter (subscribed ''alice'' ''sms.delivered'') (webhooks sample_db) = [sample_webhook]
   \<and> triggerEvent sample_mongoose 5 (\<lambda>k. ''e2'') ''alice'' ''sms.delivered''
        (JObj [(''logId'', JStr ''abc''), (''status'', JStr ''delivered'')]) sample_db
      = ([], sample_db)"
  by (simp add: triggerEvent_def sample_db_def subscribed_def sample_webhook_def
      queueWebhookEvent_def queueWebhookEvent_try_def logId_of_def get_prop_def
      validate_event_def allowed_events_def sample_mongoose_def Let_def)

theorem triggerEvent_rows_witness:
  "logId_of (JObj [(''status'', JStr ''delivered'')]) = Inr None
   \<and> list_ex (\<lambda>a. a = ''sms.delivered'') allowed_events
   \<and> list_all (\<lambda>w. 1 \<le> retryCount w)
        (filter (subscribed ''alice'' ''sms.delivered'') (webhooks sample_db))
   \<and> filter (subscribed ''alice'' ''sms.delivered'') (webhooks sample_db) = [sample_webhook]
   \<and> map fst (fst (triggerEvent sample_mongoose 5 (\<lambda>k. ''e2'') ''alice'' ''sms.delivered''
                      (JObj [(''status'', JStr ''delivered'')]) sample_db)) = [sample_webhook]
   \<and> length (map snd (fst (triggerEvent sample_mongoose 5 (\<lambda>k. ''e2'') ''alice'' ''sms.delivered''
                      (JObj [(''status'', JStr ''delivered'')]) sample_db))) = 1
   \<and> queueWebhookEvent_try sample_mongoose 5 ''e2'' sample_webhook ''sms.delivered'' JNull sample_db
       = Inl (TypeError ''Cannot read properties of null'')
   \<and> queueWebhookEvent sample_mongoose 5 ''e2'' sample_webhook ''sms.delivered'' JNull sample_db
       = (None, sample_db)"
proof -
  have f: "filter (subscribed ''alice'' ''sms.delivered'') (webhooks sample_db) = [sample_webhook]"
    by (simp add: sample_db_def subscribed_def sample_webhook_def)
  have h: "logId_of (JObj [(''status'', JStr ''delivered'')]) = Inr None"
    "list_ex (\<lambda>a. a = ''sms.delivered'') allowed_events"
    "list_all (\<lambda>w. 1 \<le> retryCount w)
        (filter (subscribed ''alice'' ''sms.delivered'') (webhooks sample_db))"
    by (simp_all add: f logId_of_def get_prop_def allowed_events_def sample_webhook_def)
  have t: "queueWebhookEvent_try sample_mongoose 5 ''e2'' sample_webhook ''sms.delivered'' JNull
             sample_db = Inl (TypeError ''Cannot read properties of null'')"
    by (simp add: queueWebhookEvent_try_def logId_of_def)
  show ?thesis
    using h f t
      triggerEvent_rows [of sample_mongoose 5 "\<lambda>k. ''e2''" "''alice''" "''sms.delivered''"
        "JObj [(''status'', JStr ''delivered'')]" sample_db None "''e2''" sample_webhook
        "TypeError ''Cannot read properties of null''"]
      triggerEvent_rows [of sample_mongoose 5 "\<lambda>k. ''e2''" "''alice''" "''sms.delivered''"
        JNull sample_db None "''e2''" sample_webhook
        "TypeError ''Cannot read properties of null''"]
    by simp
qed

section \<open>The statistics of a subscription\<close>

lemma rotateSecret_Inr:
  assumes "rotateSecret m now rnd i user d = Inr (w', d')"
  shows "\<exists>w. findById i (webhooks d) = Some w \<and> username w = user
            \<and> w' = w\<lparr>secret := generateSecret rnd, updated_at := now\<rparr>
            \<and> d' = d\<lparr>webhooks := findByIdAndUpdate (wid w') (\<lambda>x. w') (webhooks d)\<rparr>"
  using assms
  by (auto simp: rotateSecret_def save_webhook_def Let_def
      split: option.splits if_splits sum.splits)

lemma deleteWebhook_Inr:
  assumes "deleteWebhook i user d = Inr d'"
  shows "d' = d\<lparr>webhooks := filter (\<lambda>w. wid w \<noteq> i) (webhooks d)\<rparr>"
  using assms by (auto simp: deleteWebhook_def split: option.splits if_splits)

subsection \<open>What each operation does to the stored subscriptions\<close>

lemma grown_refl: "grown ws ws"
  by (simp add: grown_def stats_le_def list_all2_same)

lemma grown_trans:
  assumes "grown ws ws'" and "grown ws' ws''"
  shows "grown ws ws''"
  unfolding grown_def
  by (rule list_all2_trans [OF _ assms [unfolded grown_def]]) (auto simp: stats_le_def)

lemma grown_update:
  "(\<And>w. wid (f w) = wid w \<and> stats_le w (f w)
         \<and> (stats_consistent w \<longrightarrow> stats_consistent (f w)))
   \<Longrightarrow> grown ws (findByIdAndUpdate i f ws)"
  by (induction ws) (auto simp: grown_def findByIdAndUpdate_def stats_le_def)

lemma grown_sendWebhookEvent:
  "grown (webhooks d) (webhooks (snd (sendWebhookEvent now duration wh ev res d)))"
  unfolding webhooks_sendWebhookEvent
  by (rule grown_update)
     (cases res;
      simp add: stats_le_def stats_consistent_def success_stats_def failure_stats_def)

lemma webhooks_send_orphan: "webhooks (send_orphan now ev d) = webhooks d"
  by (simp add: send_orphan_def)

lemma grown_retry_loop:
  "grown (webhooks (snd acc)) (webhooks (snd (retry_loop respond xs acc)))"
proof (induction respond xs acc rule: retry_loop.induct)
  case (1 respond results d)
  then show ?case by (simp add: grown_refl)
next
  case (2 respond wh ev rest results d)
  obtain now duration res where r: "respond ev = (now, duration, res)"
    by (cases "respond ev") auto
  show ?case
    using "2.IH" [of now "(duration, res)" duration res] grown_sendWebhookEvent [of d now duration wh ev res]
    by (auto simp: r intro: grown_trans)
next
  case (3 respond ev rest results d)
  obtain now duration res where r: "respond ev = (now, duration, res)"
    by (cases "respond ev") auto
  show ?case
    using "3.IH" [of now "(duration, res)" duration res]
    by (simp add: r webhooks_send_orphan)
qed

lemma same_change: "ws' = ws \<Longrightarrow> \<exists>c. c \<noteq> Grown \<and> changed c ws ws'"
  by (rule exI [of _ Same]) simp

lemma other_change: "changed c ws ws' \<Longrightarrow> c \<noteq> Grown \<Longrightarrow> \<exists>c. c \<noteq> Grown \<and> changed c ws ws'"
  by blast

lemma changes_admin:
  "\<exists>c. c \<noteq> Grown \<and> changed c (webhooks d) (webhooks (snd (snd (admin m hmac now user i op d))))"
proof (cases op)
  case Get
  then show ?thesis by (simp add: same_change)
next
  case (Update body)
  show ?thesis
  proof (cases "updateWebhook m now i user body d")
    case (Inl e)
    then have "snd (snd (admin m hmac now user i op d)) = d"
      using Update by (simp add: put_webhook_def)
    then show ?thesis by (simp add: same_change)
  next
    case (Inr r)
    obtain w' d' where r: "r = (w', d')" by (cases r)
    from updateWebhook_Inr [OF Inr [unfolded r]]
    obtain w where w: "findById i (webhooks d) = Some w" "w' = updated_webhook now user body w"
      "d' = d\<lparr>webhooks := findByIdAndUpdate (wid w') (\<lambda>x. w') (webhooks d)\<rparr>"
      by blast
    have "wid w' = i" "stats w' = stats w"
      using findById_Some_wid [OF w(1)] by (simp_all add: w(2) updated_webhook_def frame_fold_assign)
    then have "changed (Replaced i w') (webhooks d) (webhooks d')"
      using w by simp
    moreover have "snd (snd (admin m hmac now user i op d)) = d'"
      using Update Inr r by (simp add: put_webhook_def)
    ultimately show ?thesis
      using other_change [of "Replaced i w'" "webhooks d" "webhooks d'"] by simp
  qed
next
  case Delete
  show ?thesis
  proof (cases "deleteWebhook i user d")
    case (Inl e)
    then have "snd (snd (admin m hmac now user i op d)) = d"
      using Delete by (simp add: delete_webhook_def)
    then show ?thesis by (simp add: same_change)
  next
    case (Inr d')
    have "changed (Removed i) (webhooks d) (webhooks d')"
      using deleteWebhook_Inr [OF Inr] by simp
    moreover have "snd (snd (admin m hmac now user i op d)) = d'"
      using Delete Inr by (simp add: delete_webhook_def)
    ultimately show ?thesis
      using other_change [of "Removed i" "webhooks d" "webhooks d'"] by simp
  qed
next
  case (RotateSecret rnd)
  show ?thesis
  proof (cases "rotateSecret m now rnd i user d")
    case (Inl e)
    then have "snd (snd (admin m hmac now user i op d)) = d"
      using RotateSecret by (simp add: post_rotate_secret_def)
    then show ?thesis by (simp add: same_change)
  next
    case (Inr r)
    obtain w' d' where r: "r = (w', d')" by (cases r)
    from rotateSecret_Inr [OF Inr [unfolded r]]
    obtain w where w: "findById i (webhooks d) = Some w"
      "w' = w\<lparr>secret := generateSecret rnd, updated_at := now\<rparr>"
      "d' = d\<lparr>webhooks := findByIdAndUpdate (wid w') (\<lambda>x. w') (webhooks d)\<rparr>"
      by blast
    have "wid w' = i" "stats w' = stats w"
      using findById_Some_wid [OF w(1)] by (simp_all add: w(2))
    then have "changed (Replaced i w') (webhooks d) (webhooks d')"
      using w by simp
    moreover have "snd (snd (admin m hmac now user i op d)) = d'"
      using RotateSecret Inr r by (simp add: post_rotate_secret_def)
    ultimately show ?thesis
      using other_change [of "Replaced i w'" "webhooks d" "webhooks d'"] by simp
  qed
next
  case (Test ts duration res)
  then show ?thesis by (simp add: case_prod_beta same_change)
next
  case (Events f)
  then show ?thesis by (simp add: same_change)
next
  case Stats
  then show ?thesis by (simp add: same_change)
qed

lemma changes_post_webhooks:
  "\<exists>c. c \<noteq> Grown
       \<and> changed c (webhooks d) (webhooks (snd (post_webhooks m now new_id rnd user body d)))"
proof (cases "createWebhook m now new_id rnd user body d")
  case (Inl e)
  then have "snd (post_webhooks m now new_id rnd user body d) = d"
    by (simp add: post_webhooks_def)
  then show ?thesis by (simp add: same_change)
next
  case (Inr r)
  obtain w d' where r: "r = (w, d')" by (cases r)
  note c = createWebhook_Inr [OF Inr [unfolded r]]
  have "snd (post_webhooks m now new_id rnd user body d) = d
      \<or> snd (post_webhooks m now new_id rnd user body d) = d'"
    using Inr r by (simp add: post_webhooks_def)
  then show ?thesis
  proof
    assume "snd (post_webhooks m now new_id rnd user body d) = d"
    then show ?thesis by (simp add: same_change)
  next
    assume "snd (post_webhooks m now new_id rnd user body d) = d'"
    moreover have "changed (Added w) (webhooks d) (webhooks d')"
      using c by simp
    ultimately show ?thesis
      using other_change [of "Added w" "webhooks d" "webhooks d'"] by simp
  qed
qed

lemma changes_apply_operation:
  "\<exists>c. (delivery op \<or> c \<noteq> Grown)
       \<and> changed c (webhooks d) (webhooks (apply_operation m hmac op d))"
proof (cases op)
  case (Create now new_id rnd user body)
  then show ?thesis using changes_post_webhooks [of d m now new_id rnd user body] by auto
next
  case (Admin now user i aop)
  then show ?thesis using changes_admin [of d m hmac now user i aop] by auto
next
  case (Trigger now gen user et data)
  have "webhooks (snd (triggerEvent m now gen user et data d)) = webhooks d"
    unfolding triggerEvent_def using queue_all_rows by blast
  then show ?thesis
    using Trigger same_change [of "webhooks (snd (triggerEvent m now gen user et data d))"
        "webhooks d"]
    by auto
next
  case (Send now duration wh ev res)
  have "changed Grown (webhooks d) (webhooks (snd (sendWebhookEvent now duration wh ev res d)))"
    using grown_sendWebhookEvent by simp
  then show ?thesis
    using Send by (intro exI [of _ Grown]) simp
next
  case (Retry now respond)
  have "changed Grown (webhooks d) (webhooks (snd (retryFailedEvents now respond d)))"
    using grown_retry_loop [of "(\<lparr>processed = 0, successful = 0, failed = 0\<rparr>, d)" respond]
    by (simp add: retryFailedEvents_def Let_def)
  then show ?thesis
    using Retry by (intro exI [of _ Grown]) simp
qed

subsection \<open>The invariant and the growth of the counters\<close>

lemma findById_consistent:
  "findById i ws = Some w \<Longrightarrow> list_all stats_consistent ws \<Longrightarrow> stats_consistent w"
  by (induction ws) (auto simp: findById_def split: if_splits)

lemma grown_find:
  "grown ws ws' \<Longrightarrow> findById i ws = Some w \<Longrightarrow> findById i ws' = Some w' \<Longrightarrow> stats_le w w'"
  unfolding grown_def
  by (induction ws ws' rule: list_all2_induct) (auto simp: findById_def split: if_splits)

lemma findById_filter_other:
  "findById j (filter (\<lambda>w. wid w \<noteq> i) ws) = (if j = i then None else findById j ws)"
  by (induction ws) (auto simp: findById_def)

lemma findById_append:
  "findById i (ws @ [w]) = (case findById i ws of Some x \<Rightarrow> Some x
                            | None \<Rightarrow> if wid w = i then Some w else None)"
  by (induction ws) (auto simp: findById_def)

lemma changed_stats_le:
  assumes "changed c ws ws'" and "findById i ws = Some w" and "findById i ws' = Some w'"
  shows "stats_le w w'"
proof (cases c)
  case Same
  then show ?thesis using assms by (simp add: stats_le_def)
next
  case (Added x)
  then show ?thesis using assms by (auto simp: findById_append stats_le_def)
next
  case (Removed j)
  then show ?thesis using assms by (simp add: findById_filter_other stats_le_def split: if_splits)
next
  case (Replaced j x)
  then show ?thesis using assms by (auto simp: findById_replace stats_le_def split: if_splits)
next
  case Grown
  then show ?thesis using assms grown_find by simp
qed

lemma changed_stats_eq:
  assumes "changed c ws ws'" and "c \<noteq> Grown"
    and "findById i ws = Some w" and "findById i ws' = Some w'"
  shows "stats w' = stats w"
proof (cases c)
  case Same
  then show ?thesis using assms by simp
next
  case (Added x)
  then show ?thesis using assms by (auto simp: findById_append)
next
  case (Removed j)
  then show ?thesis using assms by (simp add: findById_filter_other split: if_splits)
next
  case (Replaced j x)
  then show ?thesis using assms by (auto simp: findById_replace split: if_splits)
next
  case Grown
  then show ?thesis using assms by simp
qed

lemma grown_consistent:
  "grown ws ws' \<Longrightarrow> list_all stats_consistent ws \<Longrightarrow> list_all stats_consistent ws'"
  unfolding grown_def
  by (induction ws ws' rule: list_all2_induct) auto

lemma changed_consistent:
  assumes "changed c ws ws'" and "list_all stats_consistent ws"
  shows "list_all stats_consistent ws'"
proof (cases c)
  case Same
  then show ?thesis using assms by simp
next
  case (Added x)
  then show ?thesis using assms by (simp add: stats_consistent_def)
next
  case (Removed j)
  then show ?thesis using assms by (simp add: list_all_iff)
next
  case (Replaced j x)
  then obtain w where "findById j ws = Some w" "stats x = stats w"
    and ws': "ws' = findByIdAndUpdate j (\<lambda>y. x) ws"
    using assms by auto
  then have "stats_consistent x"
    using findById_consistent [of j ws w] assms(2) by (simp add: stats_consistent_def)
  then show ?thesis
    using assms(2) by (auto simp: ws' findByIdAndUpdate_def list_all_iff)
next
  case Grown
  then show ?thesis using assms grown_consistent by simp
qed


lemma consistent_apply_operation:
  assumes "db_consistent d"
  shows "db_consistent (apply_operation m hmac op d)"
proof -
  obtain c where "changed c (webhooks d) (webhooks (apply_operation m hmac op d))"
    using changes_apply_operation by blast
  then show ?thesis
    using assms changed_consistent unfolding db_consistent_def by blast
qed

lemma consistent_run: "db_consistent d \<Longrightarrow> db_consistent (run m hmac ops d)"
  unfolding run_def
  by (induction ops arbitrary: d) (simp_all add: consistent_apply_operation)

text \<open>
  Claim C6. In every state that the operations of the service reach from the empty
  collections, each stored subscription has
  \<open>successfulCalls + failedCalls = totalCalls\<close>. Over every operation, from any
  state, the three counters of a subscription that is stored before and after have not
  decreased and \<open>totalCalls\<close> has grown by as much as the other two together; an
  operation that sends no request leaves them as they are. Every update of the
  statistics is the one of \<open>sendWebhookEvent\<close>: on the stored subscription of the
  attempt, a resolved request adds one to \<open>totalCalls\<close> and one to \<open>successfulCalls\<close> and
  leaves \<open>failedCalls\<close>, a rejected request adds one to \<open>totalCalls\<close> and one to
  \<open>failedCalls\<close> and leaves \<open>successfulCalls\<close>; no other subscription is written.
\<close>

theorem stats_invariant:
  "db_consistent (run m hmac ops empty_db)
   \<and> (findById i (webhooks d) = Some w
      \<and> findById i (webhooks (apply_operation m hmac op d)) = Some w'
      \<longrightarrow> stats_le w w' \<and> (\<not> delivery op \<longrightarrow> stats w' = stats w))
   \<and> (findById (wid wh) (webhooks d) = Some w
      \<longrightarrow> (\<exists>x. findById (wid wh)
                  (webhooks (apply_operation m hmac (Send now duration wh ev (Resolved st)) d))
                = Some x
              \<and> totalCalls (stats x) = totalCalls (stats w) + 1
              \<and> successfulCalls (stats x) = successfulCalls (stats w) + 1
              \<and> failedCalls (stats x) = failedCalls (stats w))
        \<and> (\<exists>y. findById (wid wh)
                  (webhooks (apply_operation m hmac (Send now duration wh ev (Rejected code msg)) d))
                = Some y
              \<and> totalCalls (stats y) = totalCalls (stats w) + 1
              \<and> failedCalls (stats y) = failedCalls (stats w) + 1
              \<and> successfulCalls (stats y) = successfulCalls (stats w)))
   \<and> (j \<noteq> wid wh
      \<longrightarrow> findById j (webhooks (apply_operation m hmac (Send now duration wh ev res) d))
          = findById j (webhooks d))"
proof -
  have "db_consistent empty_db"
    by (simp add: db_consistent_def empty_db_def)
  then have inv: "db_consistent (run m hmac ops empty_db)"
    by (rule consistent_run)
  have step: "stats_le w w' \<and> (\<not> delivery op \<longrightarrow> stats w' = stats w)"
    if "findById i (webhooks d) = Some w"
      "findById i (webhooks (apply_operation m hmac op d)) = Some w'"
  proof -
    obtain c where c: "delivery op \<or> c \<noteq> Grown"
      "changed c (webhooks d) (webhooks (apply_operation m hmac op d))"
      using changes_apply_operation by blast
    have "stats_le w w'"
      using c(2) that by (rule changed_stats_le)
    moreover have "stats w' = stats w" if "\<not> delivery op"
      using c that changed_stats_eq [OF c(2) _ \<open>findById i (webhooks d) = Some w\<close>
          \<open>findById i (webhooks (apply_operation m hmac op d)) = Some w'\<close>]
      by blast
    ultimately show ?thesis by blast
  qed
  have ok: "\<exists>x. findById (wid wh)
                  (webhooks (apply_operation m hmac (Send now duration wh ev (Resolved st)) d))
                = Some x
              \<and> totalCalls (stats x) = totalCalls (stats w) + 1
              \<and> successfulCalls (stats x) = successfulCalls (stats w) + 1
              \<and> failedCalls (stats x) = failedCalls (stats w)"
    if "findById (wid wh) (webhooks d) = Some w"
    using that by (simp add: findById_sendWebhookEvent success_stats_def)
  have ko: "\<exists>y. findById (wid wh)
                  (webhooks (apply_operation m hmac (Send now duration wh ev (Rejected code msg)) d))
                = Some y
              \<and> totalCalls (stats y) = totalCalls (stats w) + 1
              \<and> failedCalls (stats y) = failedCalls (stats w) + 1
              \<and> successfulCalls (stats y) = successfulCalls (stats w)"
    if "findById (wid wh) (webhooks d) = Some w"
    using that by (simp add: findById_sendWebhookEvent failure_stats_def)
  have others: "findById j (webhooks (apply_operation m hmac (Send now duration wh ev res) d))
          = findById j (webhooks d)"
    if "j \<noteq> wid wh"
    using that by (cases res) (simp_all add: webhooks_sendWebhookEvent findById_update)
  show ?thesis
    using inv step ok ko others by blast
qed

lemma sample_run:
  "map (\<lambda>w. (wid w, totalCalls (stats w), successfulCalls (stats w), failedCalls (stats w)))
     (webhooks (run sample_mongoose (\<lambda>k msg. 0)
        [Create 5 ''w2'' 0 ''alice'' sample_body,
         Send 6 10 (sample_webhook\<lparr>wid := ''w2''\<rparr>) sample_event (Resolved 200),
         Send 7 10 (sample_webhook\<lparr>wid := ''w2''\<rparr>) sample_event
           (Rejected (Some 503) ''Request failed with status code 503'')] empty_db))
   = [(''w2'', 2, 1, 1)]"
  by (simp add: run_def empty_db_def post_webhooks_def present_def sample_body_def
      createWebhook_def insert_webhook_def validate_webhook_def url_validator_def
      starts_with_line_terminator_def sample_mongoose_def allowed_events_def or_number_def
      findById_def sample_webhook_def sendWebhookEvent_def findByIdAndUpdate_def
      success_stats_def failure_stats_def Let_def)

theorem stats_invariant_witness:
  "findById ''w1'' (webhooks sample_db) = Some sample_webhook
   \<and> findById ''w1'' (webhooks (apply_operation sample_mongoose (\<lambda>k msg. 0)
                                   (Send 0 10 sample_webhook sample_event (Resolved 200)) sample_db))
       = Some (success_stats 0 200 10 sample_webhook)
   \<and> stats_le sample_webhook (success_stats 0 200 10 sample_webhook)
   \<and> totalCalls (stats (success_stats 0 200 10 sample_webhook)) = 1
   \<and> successfulCalls (stats (success_stats 0 200 10 sample_webhook)) = 1
   \<and> failedCalls (stats (success_stats 0 200 10 sample_webhook)) = 0
   \<and> \<not> delivery (Trigger 5 (\<lambda>k. ''e2'') ''alice'' ''sms.delivered'' (JObj []))
   \<and> findById ''w1'' (webhooks (apply_operation sample_mongoose (\<lambda>k msg. 0)
                                   (Trigger 5 (\<lambda>k. ''e2'') ''alice'' ''sms.delivered'' (JObj []))
                                   sample_db))
       = Some sample_webhook
   \<and> ''w9'' \<noteq> wid sample_webhook
   \<and> findById ''w9'' (webhooks (apply_operation sample_mongoose (\<lambda>k msg. 0)
                                   (Send 0 10 sample_webhook sample_event (Resolved 200)) sample_db))
       = findById ''w9'' (webhooks sample_db)
   \<and> db_consistent (run sample_mongoose (\<lambda>k msg. 0)
        [Create 5 ''w2'' 0 ''alice'' sample_body,
         Send 6 10 (sample_webhook\<lparr>wid := ''w2''\<rparr>) sample_event (Resolved 200),
         Send 7 10 (sample_webhook\<lparr>wid := ''w2''\<rparr>) sample_event
           (Rejected (Some 503) ''Request failed with status code 503'')] empty_db)
   \<and> map (\<lambda>w. (wid w, totalCalls (stats w), successfulCalls (stats w), failedCalls (stats w)))
        (webhooks (run sample_mongoose (\<lambda>k msg. 0)
           [Create 5 ''w2'' 0 ''alice'' sample_body,
            Send 6 10 (sample_webhook\<lparr>wid := ''w2''\<rparr>) sample_event (Resolved 200),
            Send 7 10 (sample_webhook\<lparr>wid := ''w2''\<rparr>) sample_event
              (Rejected (Some 503) ''Request failed with status code 503'')] empty_db))
      = [(''w2'', 2, 1, 1)]"
proof -
  have h: "findById ''w1'' (webhooks sample_db) = Some sample_webhook"
    "findById ''w1'' (webhooks (apply_operation sample_mongoose (\<lambda>k msg. 0)
                                   (Send 0 10 sample_webhook sample_event (Resolved 200)) sample_db))
       = Some (success_stats 0 200 10 sample_webhook)"
    by (simp_all add: sample_db_def findById_def sample_webhook_def sendWebhookEvent_def
        findByIdAndUpdate_def success_stats_def Let_def)
  have t: "findById ''w1'' (webhooks (apply_operation sample_mongoose (\<lambda>k msg. 0)
                                   (Trigger 5 (\<lambda>k. ''e2'') ''alice'' ''sms.delivered'' (JObj []))
                                   sample_db))
       = Some sample_webhook"
    using h(1) queue_all_rows [of sample_mongoose 5 "\<lambda>k. ''e2''" 0 "''sms.delivered''" "JObj []"
        "filter (subscribed ''alice'' ''sms.delivered'') (webhooks sample_db)" sample_db]
    by (simp add: triggerEvent_def)
  have c: "totalCalls (stats (success_stats 0 200 10 sample_webhook)) = 1"
    "successfulCalls (stats (success_stats 0 200 10 sample_webhook)) = 1"
    "failedCalls (stats (success_stats 0 200 10 sample_webhook)) = 0"
    "''w9'' \<noteq> wid sample_webhook"
    "\<not> delivery (Trigger 5 (\<lambda>k. ''e2'') ''alice'' ''sms.delivered'' (JObj []))"
    by (simp_all add: success_stats_def sample_webhook_def new_stats_def)
  show ?thesis
    using h t c sample_run
      stats_invariant [of sample_mongoose "\<lambda>k msg. 0"
        "[Create 5 ''w2'' 0 ''alice'' sample_body,
          Send 6 10 (sample_webhook\<lparr>wid := ''w2''\<rparr>) sample_event (Resolved 200),
          Send 7 10 (sample_webhook\<lparr>wid := ''w2''\<rparr>) sample_event
            (Rejected (Some 503) ''Request failed with status code 503'')]"
        "''w1''" sample_db sample_webhook
        "Send 0 10 sample_webhook sample_event (Resolved 200)"
        "success_stats 0 200 10 sample_webhook" sample_webhook 0 10 sample_event 200
        "Some 503" "''x''" "''w9''" "Resolved 200"]
      stats_invariant [of sample_mongoose "\<lambda>k msg. 0" "[]" "''w1''" sample_db sample_webhook
        "Trigger 5 (\<lambda>k. ''e2'') ''alice'' ''sms.delivered'' (JObj [])" sample_webhook
        sample_webhook 0 10 sample_event 200 "Some 503" "''x''" "''w9''" "Resolved 200"]
    by simp
qed

end
